theory Spec2Isabelle
  imports Complex_Main
begin

section \<open>JavaScript values used by the dashboard\<close>

text \<open>
  Strings are sequences of code units below 256 (ASCII and Latin-1 text). Numbers are
  IEEE doubles in the source; the model keeps the exact rational a finite double denotes,
  identifies the two zeros (they are both falsy and compare equal), and has separate
  values for NaN and the two infinities.
\<close>

datatype jsnum = NaN | Fin rat | PosInf | NegInf

datatype jsval = Str string | Num jsnum

text \<open>The white space that \<open>String.prototype.trim\<close> and \<open>parseInt\<close> strip:
  TAB, LF, VT, FF, CR, SP and NBSP.\<close>

definition is_ws :: "char \<Rightarrow> bool" where
  "is_ws c = (c \<in> set [CHR 0x09, CHR 0x0A, CHR 0x0B, CHR 0x0C, CHR 0x0D, CHR 0x20, CHR 0xA0])"

definition trim_start :: "string \<Rightarrow> string" where
  "trim_start s = dropWhile is_ws s"

definition trim :: "string \<Rightarrow> string" where
  "trim s = rev (dropWhile is_ws (rev (dropWhile is_ws s)))"

text \<open>\<open>x || 0\<close> on a number: NaN and zero are falsy.\<close>

fun truthy_num :: "jsnum \<Rightarrow> bool" where
  "truthy_num NaN = False"
| "truthy_num (Fin r) = (r \<noteq> 0)"
| "truthy_num PosInf = True"
| "truthy_num NegInf = True"

definition or_zero :: "jsnum \<Rightarrow> jsnum" where
  "or_zero x = (if truthy_num x then x else Fin 0)"

subsection \<open>parseInt without a radix\<close>

text \<open>The value of a character as a digit in radix \<open>r\<close>, as ECMAScript reads it:
  \<open>0-9\<close>, then \<open>a-z\<close> and \<open>A-Z\<close> for ten and above.\<close>

definition digit_of :: "nat \<Rightarrow> char \<Rightarrow> nat option" where
  "digit_of r c =
     (let n = (of_char c :: nat);
          d = (if 48 \<le> n \<and> n \<le> 57 then Some (n - 48)
               else if 97 \<le> n \<and> n \<le> 122 then Some (n - 87)
               else if 65 \<le> n \<and> n \<le> 90 then Some (n - 55)
               else None)
      in case d of None \<Rightarrow> None | Some v \<Rightarrow> if v < r then Some v else None)"

definition is_digit_in :: "nat \<Rightarrow> char \<Rightarrow> bool" where
  "is_digit_in r c = (digit_of r c \<noteq> None)"

definition digits_value :: "nat \<Rightarrow> string \<Rightarrow> nat" where
  "digits_value r ds = foldl (\<lambda>acc c. acc * r + (case digit_of r c of None \<Rightarrow> 0 | Some v \<Rightarrow> v)) 0 ds"

fun bit_len :: "nat \<Rightarrow> nat" where
  "bit_len n = (if n = 0 then 0 else Suc (bit_len (n div 2)))"

text \<open>The double nearest to an integer (ties to even, overflow to infinity). Integers of
  magnitude up to \<open>2^53\<close> are doubles themselves. For a decimal run of more than 20
  digits ECMAScript lets an engine approximate; the properties proved below only read
  values up to \<open>2^53\<close> and one 16-digit example.\<close>

definition number_of_int :: "int \<Rightarrow> jsnum" where
  "number_of_int i =
     (let a = nat \<bar>i\<bar> in
      if a \<le> 2 ^ 53 then Fin (of_int i)
      else
        let e = bit_len a - 53;
            q = a div 2 ^ e;
            r = a mod 2 ^ e;
            q' = (if 2 * r > 2 ^ e \<or> (2 * r = 2 ^ e \<and> odd q) then q + 1 else q);
            m = q' * 2 ^ e
        in if m \<ge> 2 ^ 1024 then (if i < 0 then NegInf else PosInf)
           else Fin (of_int (if i < 0 then - int m else int m)))"

text \<open>\<open>ToString\<close> of a property read: a missing property is \<open>undefined\<close>.\<close>

definition to_string :: "string option \<Rightarrow> string" where
  "to_string v = (case v of None \<Rightarrow> ''undefined'' | Some s \<Rightarrow> s)"

text \<open>Step 4 of \<open>parseInt\<close>: a leading \<open>+\<close> or \<open>-\<close> is removed.\<close>

definition strip_sign :: "string \<Rightarrow> string" where
  "strip_sign s =
     (case s of [] \<Rightarrow> [] | c # cs \<Rightarrow> if c = CHR ''+'' \<or> c = CHR ''-'' then cs else s)"

text \<open>\<open>parseInt(v)\<close>: skip leading white space, read a sign, switch to radix 16 after
  \<open>0x\<close> or \<open>0X\<close>, read the longest run of digits; no digit gives NaN.\<close>

definition parseInt :: "string option \<Rightarrow> jsnum" where
  "parseInt v =
     (let s = trim_start (to_string v);
          neg = (case s of [] \<Rightarrow> False | c # _ \<Rightarrow> c = CHR ''-'');
          s1 = strip_sign s;
          hex = (take 2 s1 = ''0x'' \<or> take 2 s1 = ''0X'');
          r = (if hex then 16 else 10);
          s2 = (if hex then drop 2 s1 else s1);
          z = takeWhile (is_digit_in r) s2
      in if z = [] then NaN
         else number_of_int ((if neg then - 1 else 1) * int (digits_value r z)))"

section \<open>Row Normalizer and the Loader's filter (\<open>loadDataset\<close>, the \<open>complete\<close> callback)\<close>

text \<open>
  A raw row is the object Papa Parse builds for one CSV line with \<open>header: true\<close>: header
  text to field text, a header the line has no field for being absent. A normalized
  record is the object literal of the callback, a property bag of strings and numbers.
\<close>

type_synonym rawrow = "string \<rightharpoonup> string"

type_synonym jsrecord = "string \<rightharpoonup> jsval"

text \<open>
  The dataset descriptor \<open>datasetsConfig[datasetKey]\<close>. \<open>loadDataset\<close> reads
  \<open>minYear\<close>, \<open>maxYear\<close> and \<open>columnMap\<close> from it; the object that carries them is not
  part of the sources, so the three are fields of a parameter here. \<open>columnMap\<close> is
  held as \<open>Object.entries\<close> lists it, (original header, new name) in property order.
\<close>

record config =
  minYear :: int
  maxYear :: int
  columnMap :: "(string \<times> string) list"

definition sentinel :: string where
  "sentinel = ''Desconhecido''"

text \<open>\<open>String(row.Entity || 'Desconhecido').trim()\<close>: a missing or empty field is
  falsy and is replaced first, the result is trimmed afterwards.\<close>

definition entity_of :: "rawrow \<Rightarrow> string" where
  "entity_of row =
     trim (case row ''Entity'' of
             None \<Rightarrow> sentinel
           | Some s \<Rightarrow> if s = [] then sentinel else s)"

text \<open>\<open>Object.fromEntries\<close>: pairs are stored in order, a later pair replaces an
  earlier one with the same key.\<close>

definition fromEntries :: "(string \<times> jsval) list \<Rightarrow> jsrecord" where
  "fromEntries kvs = foldl (\<lambda>m (k, v). m(k \<mapsto> v)) Map.empty kvs"

text \<open>
  The arrow function mapped over \<open>results.data\<close>. \<open>parseFloat\<close> is the ECMAScript
  builtin on doubles; it is a parameter, applied to the property read (\<open>None\<close> for
  \<open>undefined\<close>). The spread of the renamed columns comes last in the literal, so it
  replaces \<open>Entity\<close> or \<open>Year\<close> when a new name is one of those.
\<close>

definition normalizeRow :: "(string option \<Rightarrow> jsnum) \<Rightarrow> config \<Rightarrow> rawrow \<Rightarrow> jsrecord" where
  "normalizeRow parseFloat cfg row =
     [''Entity'' \<mapsto> Str (entity_of row),
      ''Year'' \<mapsto> Num (or_zero (parseInt (row ''Year'')))]
     ++ fromEntries
          (map (\<lambda>(original, newName). (newName, Num (or_zero (parseFloat (row original)))))
               (columnMap cfg))"

text \<open>\<open>row.Year >= config.minYear\<close> and \<open>row.Year <= config.maxYear\<close> on a number
  and an integer bound: every comparison with NaN is false.\<close>

fun num_ge :: "jsnum \<Rightarrow> int \<Rightarrow> bool" where
  "num_ge NaN b = False"
| "num_ge (Fin r) b = (of_int b \<le> r)"
| "num_ge PosInf b = True"
| "num_ge NegInf b = False"

fun num_le :: "jsnum \<Rightarrow> int \<Rightarrow> bool" where
  "num_le NaN b = False"
| "num_le (Fin r) b = (r \<le> of_int b)"
| "num_le PosInf b = False"
| "num_le NegInf b = True"

text \<open>The number under \<open>Year\<close>. \<open>normalizeRow\<close> always stores a number there (lemma
  \<open>normalizeRow_Year_num\<close>), so the other cases are never read.\<close>

definition year_of :: "jsrecord \<Rightarrow> jsnum" where
  "year_of r = (case r ''Year'' of Some (Num x) \<Rightarrow> x | _ \<Rightarrow> NaN)"

text \<open>The predicate of \<open>.filter(...)\<close>.\<close>

definition keepRow :: "config \<Rightarrow> jsrecord \<Rightarrow> bool" where
  "keepRow cfg r =
     (r ''Entity'' \<noteq> Some (Str sentinel)
      \<and> num_ge (year_of r) (minYear cfg)
      \<and> num_le (year_of r) (maxYear cfg))"

text \<open>The value assigned to \<open>config.data\<close>.\<close>

definition loadedData :: "(string option \<Rightarrow> jsnum) \<Rightarrow> config \<Rightarrow> rawrow list \<Rightarrow> jsrecord list" where
  "loadedData parseFloat cfg rows = filter (keepRow cfg) (map (normalizeRow parseFloat cfg) rows)"

section \<open>The Dataset Loader (\<open>loadDataset\<close>)\<close>

subsection \<open>Metadata\<close>

text \<open>The value \<open>metaResponse.json()\<close> resolves to.\<close>

datatype json =
    JNull
  | JBool bool
  | JNum jsnum
  | JStr string
  | JArr "json list"
  | JObj "(string \<times> json) list"

text \<open>
  Reading an own property of a parsed value that is not \<open>null\<close>: only objects have
  named members, and the last of several members with one name is the one kept. The two
  names read by the loader, \<open>chart\<close> and \<open>citation\<close>, are not inherited by strings,
  arrays, numbers or booleans, so those give \<open>undefined\<close> (\<open>None\<close>).
\<close>

fun get_prop :: "json \<Rightarrow> string \<Rightarrow> json option" where
  "get_prop (JObj kvs) name = map_of (rev kvs) name"
| "get_prop _ name = None"

fun truthy :: "json \<Rightarrow> bool" where
  "truthy JNull = False"
| "truthy (JBool b) = b"
| "truthy (JNum x) = truthy_num x"
| "truthy (JStr s) = (s \<noteq> [])"
| "truthy (JArr _) = True"
| "truthy (JObj _) = True"

datatype error = TypeError

text \<open>\<open>metadata.chart?.citation\<close>: reading \<open>chart\<close> of \<open>null\<close> throws; a \<open>chart\<close>
  that is \<open>undefined\<close> or \<open>null\<close> short-circuits to \<open>undefined\<close>.\<close>

definition chart_citation :: "json \<Rightarrow> error + json option" where
  "chart_citation metadata =
     (case metadata of
        JNull \<Rightarrow> Inl TypeError
      | _ \<Rightarrow> Inr (case get_prop metadata ''chart'' of
                   None \<Rightarrow> None
                 | Some JNull \<Rightarrow> None
                 | Some chart \<Rightarrow> get_prop chart ''citation''))"

text \<open>\<open>metadata.chart?.citation || `Fonte: ${datasetKey}`\<close>, the value assigned to the
  citation element's \<open>textContent\<close>.\<close>

definition citation_or_default :: "string \<Rightarrow> json option \<Rightarrow> json" where
  "citation_or_default datasetKey c =
     (case c of
        None \<Rightarrow> JStr (''Fonte: '' @ datasetKey)
      | Some v \<Rightarrow> if truthy v then v else JStr (''Fonte: '' @ datasetKey))"

subsection \<open>State and environment\<close>

text \<open>
  What one dataset key owns: its entry of \<open>datasetsConfig\<close> (the descriptor, \<open>data\<close>,
  \<open>filteredData\<close>) and the page elements the entry names: the loader (\<open>innerHTML\<close>
  and whether \<open>style.display\<close> is \<open>none\<close>), the citation (the value last assigned to
  \<open>textContent\<close>) and the apply button (\<open>None\<close> when the page has none, else its
  \<open>disabled\<close> flag). Each key has elements of its own, as in the configuration built on
  \<open>DOMContentLoaded\<close>, where every element id starts with the key.
\<close>

record dataset =
  conf :: config
  data :: "jsrecord list"
  filteredData :: "jsrecord list"
  loaderHTML :: string
  loaderHidden :: bool
  citation :: json
  applyDisabled :: "bool option"

type_synonym world = "string \<rightharpoonup> dataset"

text \<open>An awaited promise: rejected with an error whose \<open>message\<close> is given, or resolved.\<close>

datatype 'a outcome = Rejected string | Resolved 'a

text \<open>
  The \<open>results\<close> Papa Parse hands to \<open>complete\<close>: \<open>results.data\<close>, the rows, and
  \<open>results.errors\<close>, the messages of what it found wrong with the text (a line with
  too few or too many fields, a quote left open). For a string input the parser reports
  a malformed text there and still calls \<open>complete\<close>; it calls \<open>error\<close> for an input
  it cannot read, a file or a download. The callback of \<open>loadDataset\<close> reads
  \<open>results.data\<close> only.
\<close>

record parse_results =
  results_data :: "rawrow list"
  results_errors :: "string list"

text \<open>
  What the environment answers during one run, in the order the run asks:
  \<open>fetch(config.metadataPath)\<close>, \<open>metaResponse.json()\<close>, \<open>fetch(config.csvPath)\<close>,
  \<open>csvResponse.text()\<close>, Papa Parse on the text (the results handed to \<open>complete\<close>,
  or the error handed to \<open>error\<close>), and the call of \<open>initializeFilters\<close>, which is not
  part of the sources: it returns or throws, and writes nothing of the state above.
  \<open>nullMessage\<close> is the engine's message for reading a property of \<open>null\<close>.
\<close>

record io =
  metaFetch :: "unit outcome"
  metaJson :: "json outcome"
  csvFetch :: "unit outcome"
  csvText :: "string outcome"
  papaParse :: "string \<Rightarrow> parse_results outcome"
  initFilters :: "unit outcome"
  nullMessage :: string

text \<open>\<open>datasetKey.replace(/-/g, ' ')\<close>.\<close>

definition replace_dashes :: "string \<Rightarrow> string" where
  "replace_dashes s = map (\<lambda>c. if c = CHR ''-'' then CHR '' '' else c) s"

text \<open>
  The \<open>try\<close> block. The result is the state when the block is left and the message of
  the error that left it, if one did. Assignments made before a throw stay.
\<close>

definition try_block ::
  "(string option \<Rightarrow> jsnum) \<Rightarrow> io \<Rightarrow> string \<Rightarrow> dataset \<Rightarrow> dataset \<times> string option" where
  "try_block parseFloat env datasetKey ds =
     (case metaFetch env of Rejected m \<Rightarrow> (ds, Some m) | Resolved _ \<Rightarrow>
      case metaJson env of Rejected m \<Rightarrow> (ds, Some m) | Resolved metadata \<Rightarrow>
      case chart_citation metadata of Inl _ \<Rightarrow> (ds, Some (nullMessage env)) | Inr c \<Rightarrow>
        let ds1 = ds\<lparr>citation := citation_or_default datasetKey c\<rparr> in
      case csvFetch env of Rejected m \<Rightarrow> (ds1, Some m) | Resolved _ \<Rightarrow>
      case csvText env of Rejected m \<Rightarrow> (ds1, Some m) | Resolved text \<Rightarrow>
      case papaParse env text of Rejected m \<Rightarrow> (ds1, Some m) | Resolved results \<Rightarrow>
        let ds2 = ds1\<lparr>data := loadedData parseFloat (conf ds1) (results_data results)\<rparr> in
      case initFilters env of Rejected m \<Rightarrow> (ds2, Some m) | Resolved _ \<Rightarrow>
        (ds2\<lparr>applyDisabled := map_option (\<lambda>_. False) (applyDisabled ds2),
             loaderHidden := True\<rparr>, None))"

text \<open>
  \<open>loadDataset(datasetKey)\<close>. An unknown key makes \<open>config\<close> undefined and the read of
  \<open>config.elements\<close> throws before the \<open>try\<close>: the promise rejects and nothing is
  written. Otherwise the loader text is set, the \<open>try\<close> block runs, and the \<open>catch\<close>
  writes the error text into the loader.
\<close>

definition loadDataset ::
  "(string option \<Rightarrow> jsnum) \<Rightarrow> io \<Rightarrow> string \<Rightarrow> world \<Rightarrow> error + world" where
  "loadDataset parseFloat env datasetKey w =
     (case w datasetKey of
        None \<Rightarrow> Inl TypeError
      | Some ds \<Rightarrow>
          let ds0 = ds\<lparr>loaderHTML := ''Carregando '' @ replace_dashes datasetKey @ ''...''\<rparr>
          in case try_block parseFloat env datasetKey ds0 of
               (ds', None) \<Rightarrow> Inr (w(datasetKey \<mapsto> ds'))
             | (ds', Some m) \<Rightarrow> Inr (w(datasetKey \<mapsto> ds'\<lparr>loaderHTML := ''Erro: '' @ m\<rparr>)))"

text \<open>A run in which every awaited step resolves, the metadata is not \<open>null\<close> and
  \<open>initializeFilters\<close> returns: the \<open>complete\<close> callback runs to its end.\<close>

definition succeeds :: "io \<Rightarrow> bool" where
  "succeeds env =
     (case metaFetch env of Rejected _ \<Rightarrow> False | Resolved _ \<Rightarrow>
      case metaJson env of Rejected _ \<Rightarrow> False | Resolved metadata \<Rightarrow>
      metadata \<noteq> JNull \<and>
      (case csvFetch env of Rejected _ \<Rightarrow> False | Resolved _ \<Rightarrow>
       case csvText env of Rejected _ \<Rightarrow> False | Resolved text \<Rightarrow>
       case papaParse env text of Rejected _ \<Rightarrow> False | Resolved _ \<Rightarrow>
       case initFilters env of Rejected _ \<Rightarrow> False | Resolved _ \<Rightarrow> True))"

section \<open>The year sliders (\<open>initializeSliders\<close>)\<close>

text \<open>
  A range input: its \<open>min\<close> and \<open>max\<close> and its \<open>value\<close>. With the default step
  and whole bounds the value is a whole number; it is kept as the integer that
  \<open>parseInt\<close> reads back from its text.
\<close>

record slider =
  slider_min :: int
  slider_max :: int
  slider_value :: int

text \<open>What a range input makes of a value it is given: a value below the minimum becomes
  the minimum, a value above the maximum becomes the maximum (unless the maximum is below
  the minimum).\<close>

definition sanitize :: "int \<Rightarrow> int \<Rightarrow> int \<Rightarrow> int" where
  "sanitize lo hi v = (if v < lo then lo else if hi < v \<and> lo \<le> hi then hi else v)"

text \<open>Assignments to \<open>value\<close>, \<open>min\<close> and \<open>max\<close>: the input keeps its value inside
  its own range after each.\<close>

definition set_value :: "int \<Rightarrow> slider \<Rightarrow> slider" where
  "set_value v s = s\<lparr>slider_value := sanitize (slider_min s) (slider_max s) v\<rparr>"

definition set_min :: "int \<Rightarrow> slider \<Rightarrow> slider" where
  "set_min m s = s\<lparr>slider_min := m, slider_value := sanitize m (slider_max s) (slider_value s)\<rparr>"

definition set_max :: "int \<Rightarrow> slider \<Rightarrow> slider" where
  "set_max m s = s\<lparr>slider_max := m, slider_value := sanitize (slider_min s) m (slider_value s)\<rparr>"

text \<open>The two range inputs of one dataset and the text of the two elements that display
  them.\<close>

record sliders =
  minYearSlider :: slider
  maxYearSlider :: slider
  minYearDisplay :: int
  maxYearDisplay :: int

text \<open>
  \<open>initializeSliders\<close> up to the registration of the listeners, on the inputs as the
  page declares them (the page is not part of the sources, so it is a parameter). The
  function sets \<open>min\<close>, \<open>max\<close> and \<open>value\<close> of the min-year slider and only the
  \<open>value\<close> of the max-year slider, whose range stays the page's.
\<close>

definition initializeSliders :: "sliders \<Rightarrow> sliders" where
  "initializeSliders page =
     page\<lparr>minYearSlider := set_value 2000 (set_max 2024 (set_min 2000 (minYearSlider page))),
          minYearDisplay := 2000,
          maxYearSlider := set_value 2024 (maxYearSlider page),
          maxYearDisplay := 2024\<rparr>"

text \<open>The listener registered on the min-year slider; \<open>this.value\<close> is that slider's
  value.\<close>

definition minYearSlider_input :: "sliders \<Rightarrow> sliders" where
  "minYearSlider_input st =
     (let v = slider_value (minYearSlider st);
          st1 = st\<lparr>minYearDisplay := v\<rparr>
      in if v > slider_value (maxYearSlider st1)
         then st1\<lparr>maxYearSlider := set_value v (maxYearSlider st1), maxYearDisplay := v\<rparr>
         else st1)"

text \<open>The listener registered on the max-year slider.\<close>

definition maxYearSlider_input :: "sliders \<Rightarrow> sliders" where
  "maxYearSlider_input st =
     (let v = slider_value (maxYearSlider st);
          st1 = st\<lparr>maxYearDisplay := v\<rparr>
      in if v < slider_value (minYearSlider st1)
         then st1\<lparr>minYearSlider := set_value v (minYearSlider st1), minYearDisplay := v\<rparr>
         else st1)"

text \<open>An \<open>input\<close> event: the user moves one slider to a year, the browser stores it in
  that slider, and the listener registered on the slider runs.\<close>

datatype slider_event = MinInput int | MaxInput int

fun on_input :: "slider_event \<Rightarrow> sliders \<Rightarrow> sliders" where
  "on_input (MinInput v) st = minYearSlider_input (st\<lparr>minYearSlider := set_value v (minYearSlider st)\<rparr>)"
| "on_input (MaxInput v) st = maxYearSlider_input (st\<lparr>maxYearSlider := set_value v (maxYearSlider st)\<rparr>)"

definition after_events :: "sliders \<Rightarrow> slider_event list \<Rightarrow> sliders" where
  "after_events page evs = foldl (\<lambda>st e. on_input e st) (initializeSliders page) evs"

section \<open>The Range Filter\<close>

text \<open>
  The click listener of the apply buttons calls \<open>applyFilters(datasetKey)\<close>; the function
  itself is not part of the sources. The definitions of this section follow section 4.3
  of the specification.
\<close>

definition in_range :: "int \<Rightarrow> int \<Rightarrow> jsrecord \<Rightarrow> bool" where
  "in_range lo hi r = (num_ge (year_of r) lo \<and> num_le (year_of r) hi)"

definition year_value :: "jsrecord \<Rightarrow> rat" where
  "year_value r = (case year_of r of Fin y \<Rightarrow> y | _ \<Rightarrow> 0)"

definition indicator_value :: "string \<Rightarrow> jsrecord \<Rightarrow> rat" where
  "indicator_value ind r = (case r ind of Some (Num (Fin v)) \<Rightarrow> v | _ \<Rightarrow> 0)"

definition mean :: "rat list \<Rightarrow> rat" where
  "mean xs = sum_list xs / of_nat (length xs)"

text \<open>The distinct elements of a list, in the order of their first occurrence.\<close>

definition distinct_in_order :: "'a list \<Rightarrow> 'a list" where
  "distinct_in_order xs = rev (remdups (rev xs))"

record filter_result =
  filtered :: "jsrecord list"
  avgTable :: "(jsval option \<times> rat) list"
  progressTable :: "(rat \<times> rat) list"

text \<open>
  Modelled from the spec: the Range Filter (\<open>applyFilters\<close>), which is missing from the
  sources. Bounds given in the wrong order are swapped; \<open>filtered\<close> keeps the Records
  with Year in range, in the order of \<open>data\<close>; the average table has one row per
  distinct Entity of \<open>filtered\<close> with the mean of the main indicator over that
  entity's Records; the progress table has one row per distinct Year, ascending, with the
  mean over that year's Records.
\<close>

definition rangeFilter :: "string \<Rightarrow> jsrecord list \<Rightarrow> int \<Rightarrow> int \<Rightarrow> filter_result" where
  "rangeFilter ind dat lo hi =
     (let a = (if lo \<le> hi then lo else hi);
          b = (if lo \<le> hi then hi else lo);
          fd = filter (in_range a b) dat
      in \<lparr>filtered = fd,
          avgTable =
            map (\<lambda>e. (e, mean (map (indicator_value ind) (filter (\<lambda>r. r ''Entity'' = e) fd))))
                (distinct_in_order (map (\<lambda>r. r ''Entity'') fd)),
          progressTable =
            map (\<lambda>y. (y, mean (map (indicator_value ind) (filter (\<lambda>r. year_value r = y) fd))))
                (sort (remdups (map year_value fd)))\<rparr>)"

text \<open>
  Modelled from the spec: one filter-apply action on a Dataset. \<open>filteredData\<close> is
  recomputed from \<open>data\<close>; the two tables are handed to the presentation.
\<close>

definition applyFilters ::
  "string \<Rightarrow> int \<Rightarrow> int \<Rightarrow> dataset \<Rightarrow> dataset \<times> (jsval option \<times> rat) list \<times> (rat \<times> rat) list" where
  "applyFilters ind lo hi ds =
     (let res = rangeFilter ind (data ds) lo hi
      in (ds\<lparr>filteredData := filtered res\<rparr>, avgTable res, progressTable res))"

section \<open>Vocabulary of the properties\<close>

definition is_dec_digit :: "char \<Rightarrow> bool" where
  "is_dec_digit c = (c \<in> set ''0123456789'')"

text \<open>The number a run of decimal digits denotes.\<close>

definition dec_value :: "string \<Rightarrow> nat" where
  "dec_value ds = foldl (\<lambda>a c. 10 * a + (of_char c - 48)) 0 ds"

definition is_hex_digit :: "char \<Rightarrow> bool" where
  "is_hex_digit c = (c \<in> set ''0123456789abcdefABCDEF'')"

text \<open>A digit run and what follows it that together begin a hexadecimal literal:
  the single digit \<open>0\<close>, then \<open>x\<close> or \<open>X\<close>, then a hexadecimal digit.\<close>

definition starts_hex_literal :: "string \<Rightarrow> string \<Rightarrow> bool" where
  "starts_hex_literal ds rest =
     (ds = ''0'' \<and>
      (case rest of
         x # h # _ \<Rightarrow> (x = CHR ''x'' \<or> x = CHR ''X'') \<and> is_hex_digit h
       | _ \<Rightarrow> False))"

text \<open>A text with no integer to read at its start: after leading white space and one
  optional sign it is empty or goes on with something other than a decimal digit.\<close>

definition non_numeric :: "string \<Rightarrow> bool" where
  "non_numeric s =
     (case strip_sign (dropWhile is_ws s) of [] \<Rightarrow> True | c # _ \<Rightarrow> \<not> is_dec_digit c)"

text \<open>The state of a key after a run, if the run returned.\<close>

definition state_after :: "error + world \<Rightarrow> string \<Rightarrow> dataset option" where
  "state_after res k = (case res of Inl _ \<Rightarrow> None | Inr w \<Rightarrow> w k)"

text \<open>Whether one of the CSV steps of a run is rejected: the fetch, reading the text, or
  the parser calling \<open>error\<close>.\<close>

definition csv_rejected :: "io \<Rightarrow> bool" where
  "csv_rejected env =
     (case csvFetch env of Rejected _ \<Rightarrow> True | Resolved _ \<Rightarrow>
      case csvText env of Rejected _ \<Rightarrow> True | Resolved text \<Rightarrow>
      case papaParse env text of Rejected _ \<Rightarrow> True | Resolved _ \<Rightarrow> False)"

text \<open>Whether one of the metadata steps fails, and with which message.\<close>

definition metadata_fails :: "io \<Rightarrow> string \<Rightarrow> bool" where
  "metadata_fails env m =
     (case metaFetch env of Rejected m' \<Rightarrow> m' = m | Resolved _ \<Rightarrow>
      case metaJson env of Rejected m' \<Rightarrow> m' = m | Resolved _ \<Rightarrow> False)"

text \<open>Metadata that is not \<open>null\<close> and carries no truthy \<open>chart.citation\<close>.\<close>

definition no_citation :: "json \<Rightarrow> bool" where
  "no_citation metadata =
     (case chart_citation metadata of
        Inl _ \<Rightarrow> False
      | Inr None \<Rightarrow> True
      | Inr (Some v) \<Rightarrow> \<not> truthy v)"

text \<open>
  Sliders in the state the listeners keep them in when the max-year slider ranges from
  \<open>lo\<close> to \<open>hi\<close>: the min-year slider ranges from 2000 to 2024, each value is inside
  its slider's range, and the two values are in order.
\<close>

definition sliders_ok :: "int \<Rightarrow> int \<Rightarrow> sliders \<Rightarrow> bool" where
  "sliders_ok lo hi st =
     (slider_min (minYearSlider st) = 2000 \<and> slider_max (minYearSlider st) = 2024
      \<and> 2000 \<le> slider_value (minYearSlider st) \<and> slider_value (minYearSlider st) \<le> 2024
      \<and> slider_min (maxYearSlider st) = lo \<and> slider_max (maxYearSlider st) = hi
      \<and> lo \<le> slider_value (maxYearSlider st) \<and> slider_value (maxYearSlider st) \<le> hi
      \<and> slider_value (minYearSlider st) \<le> slider_value (maxYearSlider st))"

section \<open>Example inputs\<close>

text \<open>The descriptor of the specification's examples: years 2000 to 2024, the column
  \<open>Coverage\<close> renamed to \<open>coverage\<close>.\<close>

definition cfg_example :: config where
  "cfg_example = \<lparr>minYear = 2000, maxYear = 2024, columnMap = [(''Coverage'', ''coverage'')]\<rparr>"

text \<open>What the builtin \<open>parseFloat\<close> returns on the field texts of the examples:
  \<open>42.5\<close> is a double, the other texts used below (and \<open>undefined\<close>) give NaN.\<close>

definition parseFloat_example :: "string option \<Rightarrow> jsnum" where
  "parseFloat_example v = (if v = Some ''42.5'' then Fin (85 / 2) else NaN)"

definition row_brazil :: rawrow where
  "row_brazil = [''Entity'' \<mapsto> '' Brazil '', ''Year'' \<mapsto> ''2010'', ''Coverage'' \<mapsto> ''42.5'']"

definition row_blank_entity :: rawrow where
  "row_blank_entity = [''Entity'' \<mapsto> ''   '', ''Year'' \<mapsto> ''2010'', ''Coverage'' \<mapsto> ''42.5'']"

definition row_text_year :: rawrow where
  "row_text_year = [''Entity'' \<mapsto> ''Brazil'', ''Year'' \<mapsto> ''n/a'', ''Coverage'' \<mapsto> ''42.5'']"

definition row_prefix_year :: rawrow where
  "row_prefix_year = [''Entity'' \<mapsto> ''Brazil'', ''Year'' \<mapsto> ''2010abc'', ''Coverage'' \<mapsto> ''42.5'']"

definition row_hex_year :: rawrow where
  "row_hex_year = [''Entity'' \<mapsto> ''Brazil'', ''Year'' \<mapsto> ''0x1F'', ''Coverage'' \<mapsto> ''42.5'']"

definition row_long_year :: rawrow where
  "row_long_year =
     [''Entity'' \<mapsto> ''Brazil'', ''Year'' \<mapsto> ''9007199254740993abc'', ''Coverage'' \<mapsto> ''42.5'']"

definition row_no_coverage :: rawrow where
  "row_no_coverage = [''Entity'' \<mapsto> ''Chile'', ''Year'' \<mapsto> ''2011'', ''Coverage'' \<mapsto> ''n/a'']"

definition rec_brazil :: jsrecord where
  "rec_brazil =
     [''Entity'' \<mapsto> Str ''Brazil'', ''Year'' \<mapsto> Num (Fin 2010), ''coverage'' \<mapsto> Num (Fin (85 / 2))]"

text \<open>A page with two datasets before any load: empty \<open>data\<close>, placeholder citation,
  apply button disabled.\<close>

definition ds_example :: dataset where
  "ds_example =
     \<lparr>conf = cfg_example, data = [], filteredData = [], loaderHTML = [],
      loaderHidden = False, citation = JStr ''...'', applyDisabled = Some True\<rparr>"

definition world_example :: world where
  "world_example = [''marine-areas'' \<mapsto> ds_example, ''illegal-fishing'' \<mapsto> ds_example]"

definition csv_example :: string where
  "csv_example = ''Entity,Year,Coverage'' @ [CHR 0x0A] @ '' Brazil ,2010,42.5'' @ [CHR 0x0A]"

text \<open>A CSV text whose second record has two fields where the header has three, the row
  Papa Parse builds for that record, and the Record it normalizes to.\<close>

definition csv_malformed :: string where
  "csv_malformed =
     ''Entity,Year,Coverage'' @ [CHR 0x0A] @ '' Brazil ,2010,42.5'' @ [CHR 0x0A]
     @ ''Chile,2011'' @ [CHR 0x0A]"

definition row_chile_short :: rawrow where
  "row_chile_short = [''Entity'' \<mapsto> ''Chile'', ''Year'' \<mapsto> ''2011'']"

definition rec_chile :: jsrecord where
  "rec_chile =
     [''Entity'' \<mapsto> Str ''Chile'', ''Year'' \<mapsto> Num (Fin 2011), ''coverage'' \<mapsto> Num (Fin 0)]"

text \<open>What Papa Parse answers on the two texts.\<close>

definition papa_example :: "string \<Rightarrow> parse_results outcome" where
  "papa_example text =
     (if text = csv_example
      then Resolved \<lparr>results_data = [row_brazil], results_errors = []\<rparr>
      else if text = csv_malformed
      then Resolved \<lparr>results_data = [row_brazil, row_chile_short],
                     results_errors = [''Too few fields: expected 3 fields but parsed 2'']\<rparr>
      else Resolved \<lparr>results_data = [], results_errors = []\<rparr>)"

text \<open>A run in which every step resolves, runs in which the metadata fetch or the CSV
  fetch is rejected, and a run that fetches the malformed text.\<close>

definition env_ok :: io where
  "env_ok =
     \<lparr>metaFetch = Resolved (),
      metaJson = Resolved (JObj [(''chart'', JObj [(''subtitle'', JStr ''Share of waters protected'')])]),
      csvFetch = Resolved (),
      csvText = Resolved csv_example,
      papaParse = papa_example,
      initFilters = Resolved (),
      nullMessage = ''Cannot read properties of null''\<rparr>"

definition env_meta_down :: io where
  "env_meta_down =
     \<lparr>metaFetch = Rejected ''Failed to fetch'',
      metaJson = Resolved (JObj [(''chart'', JObj [(''subtitle'', JStr ''Share of waters protected'')])]),
      csvFetch = Resolved (),
      csvText = Resolved csv_example,
      papaParse = papa_example,
      initFilters = Resolved (),
      nullMessage = ''Cannot read properties of null''\<rparr>"

definition env_csv_down :: io where
  "env_csv_down =
     \<lparr>metaFetch = Resolved (),
      metaJson = Resolved (JObj [(''chart'', JObj [(''subtitle'', JStr ''Share of waters protected'')])]),
      csvFetch = Rejected ''Failed to fetch'',
      csvText = Resolved csv_example,
      papaParse = papa_example,
      initFilters = Resolved (),
      nullMessage = ''Cannot read properties of null''\<rparr>"

definition env_malformed :: io where
  "env_malformed =
     \<lparr>metaFetch = Resolved (),
      metaJson = Resolved (JObj [(''chart'', JObj [(''subtitle'', JStr ''Share of waters protected'')])]),
      csvFetch = Resolved (),
      csvText = Resolved csv_malformed,
      papaParse = papa_example,
      initFilters = Resolved (),
      nullMessage = ''Cannot read properties of null''\<rparr>"

text \<open>Pages for the sliders: both inputs declared without attributes (range 0 to 100,
  value 50), the max-year input declared from 1990 to 2024, and both declared from 2000
  to 2024.\<close>

definition page_plain :: sliders where
  "page_plain =
     \<lparr>minYearSlider = \<lparr>slider_min = 0, slider_max = 100, slider_value = 50\<rparr>,
      maxYearSlider = \<lparr>slider_min = 0, slider_max = 100, slider_value = 50\<rparr>,
      minYearDisplay = 0, maxYearDisplay = 0\<rparr>"

definition page_from_1990 :: sliders where
  "page_from_1990 =
     \<lparr>minYearSlider = \<lparr>slider_min = 0, slider_max = 100, slider_value = 50\<rparr>,
      maxYearSlider = \<lparr>slider_min = 1990, slider_max = 2024, slider_value = 2024\<rparr>,
      minYearDisplay = 0, maxYearDisplay = 0\<rparr>"

definition page_2000_2024 :: sliders where
  "page_2000_2024 =
     \<lparr>minYearSlider = \<lparr>slider_min = 2000, slider_max = 2024, slider_value = 2000\<rparr>,
      maxYearSlider = \<lparr>slider_min = 2000, slider_max = 2024, slider_value = 2024\<rparr>,
      minYearDisplay = 2000, maxYearDisplay = 2024\<rparr>"

text \<open>The \<open>data\<close> of the specification's filtering example.\<close>

definition data_example :: "jsrecord list" where
  "data_example =
     [[''Entity'' \<mapsto> Str ''A'', ''Year'' \<mapsto> Num (Fin 2001), ''coverage'' \<mapsto> Num (Fin 10)],
      [''Entity'' \<mapsto> Str ''A'', ''Year'' \<mapsto> Num (Fin 2002), ''coverage'' \<mapsto> Num (Fin 20)],
      [''Entity'' \<mapsto> Str ''B'', ''Year'' \<mapsto> Num (Fin 2001), ''coverage'' \<mapsto> Num (Fin 30)]]"

section \<open>Properties of the Row Normalizer\<close>

subsection \<open>Objects built by \<open>Object.fromEntries\<close> and the spread\<close>

lemma foldl_upd_map_of:
  "foldl (\<lambda>m (k, v). m(k \<mapsto> v)) m0 kvs = m0 ++ map_of (rev kvs)"
  by (induction kvs arbitrary: m0) (auto simp: map_add_def fun_eq_iff split: option.splits)

lemma fromEntries_map_of: "fromEntries kvs = map_of (rev kvs)"
  by (simp add: fromEntries_def foldl_upd_map_of)

lemma fromEntries_None: "k \<notin> fst ` set kvs \<Longrightarrow> fromEntries kvs k = None"
  by (simp add: fromEntries_map_of map_of_eq_None_iff)

lemma fromEntries_Num:
  "fromEntries (map (\<lambda>(a, b). (b, Num (f a))) cm) k = Some v \<Longrightarrow> \<exists>x. v = Num x"
  by (auto simp: fromEntries_map_of dest!: map_of_SomeD)

lemma normalizeRow_Year:
  "''Year'' \<notin> snd ` set (columnMap cfg) \<Longrightarrow>
   normalizeRow pf cfg row ''Year'' = Some (Num (or_zero (parseInt (row ''Year''))))"
  by (subst normalizeRow_def, subst map_add_def, subst fromEntries_None) (auto simp: image_iff)

lemma normalizeRow_Entity:
  "''Entity'' \<notin> snd ` set (columnMap cfg) \<Longrightarrow>
   normalizeRow pf cfg row ''Entity'' = Some (Str (entity_of row))"
  by (subst normalizeRow_def, subst map_add_def, subst fromEntries_None) (auto simp: image_iff)

lemma normalizeRow_Year_num: "\<exists>x. normalizeRow pf cfg row ''Year'' = Some (Num x)"
  by (auto simp: normalizeRow_def map_add_def split: option.splits dest: fromEntries_Num)

subsection \<open>Digits and \<open>parseInt\<close>\<close>

lemma mem_by_code: "c \<in> set s \<longleftrightarrow> (of_char c :: nat) \<in> of_char ` set s"
  by (rule inj_image_mem_iff[OF inj_of_char, symmetric])

lemma dec_digit_code: "is_dec_digit c \<longleftrightarrow> 48 \<le> (of_char c :: nat) \<and> (of_char c :: nat) \<le> 57"
proof -
  have "is_dec_digit c \<longleftrightarrow> (of_char c :: nat) \<in> of_char ` set ''0123456789''"
    unfolding is_dec_digit_def by (rule mem_by_code)
  also have "\<dots> \<longleftrightarrow> 48 \<le> (of_char c :: nat) \<and> (of_char c :: nat) \<le> 57"
    by simp arith
  finally show ?thesis .
qed

lemma is_digit_in_10: "is_digit_in 10 c = is_dec_digit c"
  by (auto simp: is_digit_in_def digit_of_def dec_digit_code Let_def split: option.splits if_splits)

lemma digit_of_10: "is_dec_digit c \<Longrightarrow> digit_of 10 c = Some (of_char c - 48)"
  by (auto simp: digit_of_def dec_digit_code Let_def)


lemma dec_digit_not_ws: "is_dec_digit c \<Longrightarrow> \<not> is_ws c"
  by (auto simp: is_dec_digit_def is_ws_def)

lemma dec_digit_not_sign: "is_dec_digit c \<Longrightarrow> c \<noteq> CHR ''+'' \<and> c \<noteq> CHR ''-''"
  by (auto simp: is_dec_digit_def)

lemma digits_value_10:
  "\<forall>c\<in>set ds. is_dec_digit c \<Longrightarrow> digits_value 10 ds = dec_value ds"
  unfolding digits_value_def dec_value_def
  by (rule foldl_cong) (auto simp: digit_of_10 mult.commute)

lemma parseInt_steps:
  assumes "dropWhile is_ws s = t"
    and "strip_sign t = s2"
    and "(case t of [] \<Rightarrow> False | c # _ \<Rightarrow> c = CHR ''-'') = neg"
    and "\<not> (take 2 s2 = ''0x'' \<or> take 2 s2 = ''0X'')"
    and "takeWhile (is_digit_in 10) s2 = z"
  shows "parseInt (Some s) =
         (if z = [] then NaN else number_of_int ((if neg then - 1 else 1) * int (digits_value 10 z)))"
  unfolding parseInt_def to_string_def trim_start_def option.case
  using assms by (simp only: Let_def if_False)

lemma parseInt_non_numeric: "non_numeric s \<Longrightarrow> parseInt (Some s) = NaN"
proof -
  assume nn: "non_numeric s"
  define u where "u = strip_sign (dropWhile is_ws s)"
  have u: "u = [] \<or> \<not> is_dec_digit (hd u)"
    using nn by (auto simp: non_numeric_def u_def split: list.splits)
  have nohex: "\<not> (take 2 u = ''0x'' \<or> take 2 u = ''0X'')"
  proof (cases u)
    case Nil then show ?thesis by simp
  next
    case (Cons c cs)
    with u have "\<not> is_dec_digit c" by simp
    then have "c \<noteq> CHR ''0''" by (auto simp: is_dec_digit_def)
    with Cons show ?thesis by (cases cs) auto
  qed
  have notake: "takeWhile (is_digit_in 10) u = []"
    using u by (cases u) (auto simp: is_digit_in_10)
  show ?thesis
    using parseInt_steps[OF refl u_def[symmetric] refl nohex notake] by simp
qed

lemma dropWhile_ws_prefix:
  "\<forall>c\<in>set ws. is_ws c \<Longrightarrow> xs \<noteq> [] \<Longrightarrow> \<not> is_ws (hd xs) \<Longrightarrow> dropWhile is_ws (ws @ xs) = xs"
  by (cases xs) (auto simp: dropWhile_append)

lemma takeWhile_digits:
  "\<forall>c\<in>set ds. is_dec_digit c \<Longrightarrow> (case rest of [] \<Rightarrow> True | c # _ \<Rightarrow> \<not> is_dec_digit c) \<Longrightarrow>
   takeWhile (is_digit_in 10) (ds @ rest) = ds"
  by (cases rest) (auto simp: is_digit_in_10 takeWhile_append2 takeWhile_eq_all_conv)

lemma parseInt_unsigned:
  assumes ds: "ds \<noteq> []" "\<forall>c\<in>set ds. is_dec_digit c"
    and rest: "case rest of [] \<Rightarrow> True | c # _ \<Rightarrow> \<not> is_dec_digit c"
    and nohex: "\<not> (ds = ''0'' \<and> (take 1 rest = ''x'' \<or> take 1 rest = ''X''))"
  shows "take 2 (ds @ rest) \<noteq> ''0x''" and "take 2 (ds @ rest) \<noteq> ''0X''"
proof -
  obtain d ds' where dsc: "ds = d # ds'" using ds(1) by (cases ds) auto
  have "take 2 (ds @ rest) \<noteq> ''0x'' \<and> take 2 (ds @ rest) \<noteq> ''0X''"
  proof (cases ds')
    case Nil
    with nohex dsc show ?thesis by (cases rest) auto
  next
    case (Cons e es)
    with ds(2) dsc have "is_dec_digit e" by simp
    then have "e \<noteq> CHR ''x'' \<and> e \<noteq> CHR ''X''" by (auto simp: is_dec_digit_def)
    with Cons dsc show ?thesis by auto
  qed
  then show "take 2 (ds @ rest) \<noteq> ''0x''" and "take 2 (ds @ rest) \<noteq> ''0X''" by blast+
qed

lemma parseInt_decimal:
  assumes ws: "\<forall>c\<in>set ws. is_ws c"
    and sign: "sign = [] \<or> sign = ''+'' \<or> sign = ''-''"
    and ds: "ds \<noteq> []" "\<forall>c\<in>set ds. is_dec_digit c"
    and rest: "case rest of [] \<Rightarrow> True | c # _ \<Rightarrow> \<not> is_dec_digit c"
    and nohex: "\<not> (ds = ''0'' \<and> (take 1 rest = ''x'' \<or> take 1 rest = ''X''))"
  shows "parseInt (Some (ws @ sign @ ds @ rest)) =
         number_of_int ((if sign = ''-'' then - 1 else 1) * int (dec_value ds))"
proof -
  obtain d ds' where dsc: "ds = d # ds'" using ds(1) by (cases ds) auto
  have d: "is_dec_digit d" using ds(2) dsc by simp
  note dn = dec_digit_not_sign[OF d] dec_digit_not_ws[OF d]
  have hd_ok: "sign @ ds @ rest \<noteq> []" "\<not> is_ws (hd (sign @ ds @ rest))"
    using sign dsc dn by (auto simp: is_ws_def)
  have t: "dropWhile is_ws (ws @ sign @ ds @ rest) = sign @ ds @ rest"
    by (rule dropWhile_ws_prefix[OF ws hd_ok])
  have s1: "strip_sign (sign @ ds @ rest) = ds @ rest"
    using sign dsc dn by (auto simp: strip_sign_def)
  have neg: "(case sign @ ds @ rest of [] \<Rightarrow> False | c # _ \<Rightarrow> c = CHR ''-'') = (sign = ''-'')"
    using sign dsc dn by auto
  have hex: "\<not> (take 2 (ds @ rest) = ''0x'' \<or> take 2 (ds @ rest) = ''0X'')"
    using parseInt_unsigned[OF ds rest nohex] by blast
  note z = takeWhile_digits[OF ds(2) rest]
  show ?thesis
    using parseInt_steps[OF t s1 neg hex z] ds(1) by (simp add: digits_value_10[OF ds(2)])
qed

lemma number_of_int_small: "\<bar>i\<bar> \<le> 2 ^ 53 \<Longrightarrow> number_of_int i = Fin (of_int i)"
  by (simp add: number_of_int_def Let_def nat_le_iff)

lemma or_zero_Fin: "or_zero (Fin x) = Fin x"
  by (simp add: or_zero_def)


lemma hex_digit_code: "is_digit_in 16 c \<Longrightarrow> is_hex_digit c"
proof -
  assume a: "is_digit_in 16 c"
  have "is_hex_digit c \<longleftrightarrow> (of_char c :: nat) \<in> of_char ` set ''0123456789abcdefABCDEF''"
    unfolding is_hex_digit_def by (rule mem_by_code)
  moreover from a have "(of_char c :: nat) \<in> of_char ` set ''0123456789abcdefABCDEF''"
    unfolding is_digit_in_def digit_of_def Let_def
    by (simp split: if_splits) arith+
  ultimately show ?thesis by blast
qed

lemma parseInt_steps_hex:
  assumes "dropWhile is_ws s = t"
    and "strip_sign t = s1"
    and "take 2 s1 = ''0x'' \<or> take 2 s1 = ''0X''"
    and "takeWhile (is_digit_in 16) (drop 2 s1) = []"
  shows "parseInt (Some s) = NaN"
  unfolding parseInt_def to_string_def trim_start_def option.case
  using assms by (simp only: Let_def if_True simp_thms)


lemma parseInt_zero_x:
  assumes ws: "\<forall>c\<in>set ws. is_ws c"
    and sign: "sign = [] \<or> sign = ''+'' \<or> sign = ''-''"
    and x: "x = CHR ''x'' \<or> x = CHR ''X''"
    and rest: "case rest' of [] \<Rightarrow> True | h # _ \<Rightarrow> \<not> is_hex_digit h"
  shows "parseInt (Some (ws @ sign @ ''0'' @ x # rest')) = NaN"
proof -
  have hd_ok: "sign @ ''0'' @ x # rest' \<noteq> []" "\<not> is_ws (hd (sign @ ''0'' @ x # rest'))"
    using sign by (auto simp: is_ws_def)
  have t: "dropWhile is_ws (ws @ sign @ ''0'' @ x # rest') = sign @ ''0'' @ x # rest'"
    by (rule dropWhile_ws_prefix[OF ws hd_ok])
  have s1: "strip_sign (sign @ ''0'' @ x # rest') = ''0'' @ x # rest'"
    using sign by (auto simp: strip_sign_def)
  have hex: "take 2 (''0'' @ x # rest') = ''0x'' \<or> take 2 (''0'' @ x # rest') = ''0X''"
    using x by auto
  have z: "takeWhile (is_digit_in 16) (drop 2 (''0'' @ x # rest')) = []"
    using rest by (cases rest') (auto dest: hex_digit_code)
  show ?thesis
    by (rule parseInt_steps_hex[OF t s1 hex z])
qed

lemma abs_signed_le:
  "n \<le> 2 ^ 53 \<Longrightarrow> \<bar>(if b then - 1 else 1) * int n\<bar> \<le> 2 ^ 53"
proof -
  assume "n \<le> 2 ^ 53"
  then have "int n \<le> int (2 ^ 53)" by (rule iffD2[OF of_nat_le_iff])
  then have "int n \<le> 2 ^ 53" by simp
  then show ?thesis by (cases b) simp_all
qed

lemma dec_value_zero: "dec_value ''0'' = 0"
  by (simp add: dec_value_def)

lemma parseInt_prefix:
  assumes ws: "\<forall>c\<in>set ws. is_ws c"
    and sign: "sign = [] \<or> sign = ''+'' \<or> sign = ''-''"
    and ds: "ds \<noteq> []" "\<forall>c\<in>set ds. is_dec_digit c"
    and rest: "case rest of [] \<Rightarrow> True | c # _ \<Rightarrow> \<not> is_dec_digit c"
    and nohex: "\<not> starts_hex_literal ds rest"
    and small: "dec_value ds \<le> 2 ^ 53"
  shows "or_zero (parseInt (Some (ws @ sign @ ds @ rest))) =
         Fin (of_int ((if sign = ''-'' then - 1 else 1) * int (dec_value ds)))"
proof (cases "ds = ''0'' \<and> (take 1 rest = ''x'' \<or> take 1 rest = ''X'')")
  case True
  then obtain x rest' where r: "rest = x # rest'" and x: "x = CHR ''x'' \<or> x = CHR ''X''"
    by (cases rest) auto
  from True have d0: "ds = ''0''" by blast
  have "case rest' of [] \<Rightarrow> True | h # _ \<Rightarrow> \<not> is_hex_digit h"
  proof (cases rest')
    case Nil then show ?thesis by simp
  next
    case (Cons h hs)
    with nohex d0 r x have "\<not> is_hex_digit h"
      unfolding starts_hex_literal_def by simp
    with Cons show ?thesis by simp
  qed
  from parseInt_zero_x[OF ws sign x this]
  have "parseInt (Some (ws @ sign @ ds @ rest)) = NaN" unfolding d0 r .
  then show ?thesis unfolding d0 dec_value_zero by (simp add: or_zero_def)
next
  case False
  note abs = abs_signed_le[OF small, of "sign = ''-''"]
  show ?thesis
    by (simp only: parseInt_decimal[OF ws sign ds rest False] number_of_int_small[OF abs] or_zero_Fin)
qed


subsection \<open>Entity and Year of a normalized record\<close>

lemma not_kept_not_loaded: "\<not> keepRow cfg r \<Longrightarrow> r \<notin> set (loadedData pf cfg rows)"
  by (simp add: loadedData_def)

lemma year_zero_out_of_bounds:
  "r ''Year'' = Some (Num (Fin 0)) \<Longrightarrow> \<not> (minYear cfg \<le> 0 \<and> 0 \<le> maxYear cfg) \<Longrightarrow> \<not> keepRow cfg r"
  by (auto simp: keepRow_def year_of_def)

text \<open>
  A raw record with no \<open>Entity\<close> field, or an empty one, gets the sentinel and is
  dropped by the filter.
\<close>

lemma empty_entity_excluded:
  assumes "''Entity'' \<notin> snd ` set (columnMap cfg)"
    and "row ''Entity'' = None \<or> row ''Entity'' = Some []"
  shows "normalizeRow pf cfg row ''Entity'' = Some (Str sentinel) \<and>
         normalizeRow pf cfg row \<notin> set (loadedData pf cfg rows)"
proof -
  have "entity_of row = trim sentinel"
    using assms(2) by (auto simp: entity_of_def)
  also have "trim sentinel = sentinel"
    by (simp add: trim_def sentinel_def is_ws_def)
  finally have e: "normalizeRow pf cfg row ''Entity'' = Some (Str sentinel)"
    using normalizeRow_Entity[OF assms(1)] by simp
  then have "\<not> keepRow cfg (normalizeRow pf cfg row)"
    by (simp add: keepRow_def)
  with e show ?thesis
    by (simp add: not_kept_not_loaded)
qed

lemmas example_defs =
  cfg_example_def parseFloat_example_def row_brazil_def row_blank_entity_def row_text_year_def
  row_prefix_year_def row_hex_year_def row_long_year_def row_no_coverage_def rec_brazil_def

lemmas eval_defs =
  parseInt_def trim_start_def to_string_def is_ws_def is_digit_in_def digit_of_def
  digits_value_def number_of_int_def strip_sign_def normalizeRow_def fromEntries_def or_zero_def
  entity_of_def trim_def sentinel_def keepRow_def year_of_def loadedData_def

text \<open>
  C1. For every raw record whose Entity field is empty or consists only of white space,
  the Row Normalizer produces a Record whose Entity equals the sentinel
  \<open>Desconhecido\<close>, and the Loader's filter excludes that Record from \<open>data\<close>.

  The source substitutes the sentinel before it trims. An Entity of three spaces is
  truthy, so it is kept and trimmed to the empty string: the Record has an empty Entity,
  not the sentinel, and with a Year in bounds it stays in \<open>data\<close>.
\<close>

theorem blank_entity_is_retained:
  "normalizeRow parseFloat_example cfg_example row_blank_entity ''Entity'' = Some (Str [])
   \<and> loadedData parseFloat_example cfg_example [row_blank_entity]
       = [normalizeRow parseFloat_example cfg_example row_blank_entity]"
  by (simp add: eval_defs example_defs)

text \<open>
  C4. For every raw record whose Year field is non-numeric text, the Row Normalizer
  yields a Record with Year = 0, and when 0 lies outside the dataset's bounds
  \<open>[minYear, maxYear]\<close> the Loader excludes that Record from \<open>data\<close>. Non-numeric
  text is text with no integer to read at its start; the new names of the column map are
  taken not to be \<open>Year\<close>, since the spread would replace the parsed year otherwise.
\<close>

theorem non_numeric_year_defaults_to_zero:
  assumes "''Year'' \<notin> snd ` set (columnMap cfg)"
    and "row ''Year'' = Some s"
    and "non_numeric s"
  shows "normalizeRow pf cfg row ''Year'' = Some (Num (Fin 0)) \<and>
         (\<not> (minYear cfg \<le> 0 \<and> 0 \<le> maxYear cfg)
            \<longrightarrow> normalizeRow pf cfg row \<notin> set (loadedData pf cfg rows))"
proof -
  have "parseInt (row ''Year'') = NaN"
    using assms(2,3) by (simp add: parseInt_non_numeric)
  then have y: "normalizeRow pf cfg row ''Year'' = Some (Num (Fin 0))"
    using normalizeRow_Year[OF assms(1)] by (simp add: or_zero_def)
  show ?thesis
    using y year_zero_out_of_bounds[where r = "normalizeRow pf cfg row" and cfg = cfg, OF y]
      not_kept_not_loaded by blast
qed

theorem non_numeric_year_defaults_to_zero_witness:
  "''Year'' \<notin> snd ` set (columnMap cfg_example)
   \<and> row_text_year ''Year'' = Some ''n/a''
   \<and> non_numeric ''n/a''
   \<and> \<not> (minYear cfg_example \<le> 0 \<and> 0 \<le> maxYear cfg_example)
   \<and> normalizeRow parseFloat_example cfg_example row_text_year ''Year'' = Some (Num (Fin 0))
   \<and> normalizeRow parseFloat_example cfg_example row_text_year
        \<notin> set (loadedData parseFloat_example cfg_example [row_brazil, row_text_year])"
proof -
  have h1: "''Year'' \<notin> snd ` set (columnMap cfg_example)"
    by (simp add: cfg_example_def)
  have h2: "row_text_year ''Year'' = Some ''n/a''"
    by (simp add: row_text_year_def)
  have h3: "non_numeric ''n/a''"
    by (simp add: non_numeric_def strip_sign_def is_ws_def is_dec_digit_def)
  have h4: "\<not> (minYear cfg_example \<le> 0 \<and> 0 \<le> maxYear cfg_example)"
    by (simp add: cfg_example_def)
  show ?thesis
    using non_numeric_year_defaults_to_zero[where cfg = cfg_example and row = row_text_year
        and s = "''n/a''" and pf = parseFloat_example and rows = "[row_brazil, row_text_year]",
        OF h1 h2 h3] h1 h2 h3 h4
    by blast
qed

text \<open>
  C10, as amended. For every raw record whose Year field is optional white space, an
  optional sign, a run of decimal digits of value at most \<open>2^53\<close> and then other
  characters (or nothing), the Row Normalizer yields the signed value of the digit run,
  unless the run is the single digit \<open>0\<close> followed by \<open>x\<close> or \<open>X\<close> and a
  hexadecimal digit. Beyond \<open>2^53\<close> the value is rounded to a double, and after
  \<open>0x\<close> the text is read in radix 16.
\<close>

theorem year_is_integer_prefix:
  assumes "''Year'' \<notin> snd ` set (columnMap cfg)"
    and "row ''Year'' = Some (ws @ sign @ ds @ rest)"
    and "\<forall>c\<in>set ws. is_ws c"
    and "sign = [] \<or> sign = ''+'' \<or> sign = ''-''"
    and "ds \<noteq> []"
    and "\<forall>c\<in>set ds. is_dec_digit c"
    and "case rest of [] \<Rightarrow> True | c # _ \<Rightarrow> \<not> is_dec_digit c"
    and "\<not> starts_hex_literal ds rest"
    and "dec_value ds \<le> 2 ^ 53"
  shows "normalizeRow pf cfg row ''Year''
         = Some (Num (Fin (of_int ((if sign = ''-'' then - 1 else 1) * int (dec_value ds)))))"
  using normalizeRow_Year[OF assms(1), of pf row]
    parseInt_prefix[OF assms(3) assms(4) assms(5) assms(6) assms(7) assms(8) assms(9)]
  by (simp only: assms(2))

theorem year_is_integer_prefix_witness:
  "''Year'' \<notin> snd ` set (columnMap cfg_example)
   \<and> row_prefix_year ''Year'' = Some ([] @ [] @ ''2010'' @ ''abc'')
   \<and> dec_value ''2010'' = 2010
   \<and> \<not> starts_hex_literal ''2010'' ''abc''
   \<and> normalizeRow parseFloat_example cfg_example row_prefix_year ''Year'' = Some (Num (Fin 2010))"
proof -
  have h1: "''Year'' \<notin> snd ` set (columnMap cfg_example)"
    by (simp add: cfg_example_def)
  have h2: "row_prefix_year ''Year'' = Some ([] @ [] @ ''2010'' @ ''abc'')"
    by (simp add: row_prefix_year_def)
  have h3: "\<forall>c\<in>set []. is_ws c" by simp
  have h4: "[] = [] \<or> [] = ''+'' \<or> [] = ''-''" by simp
  have h5: "''2010'' \<noteq> []" by simp
  have h6: "\<forall>c\<in>set ''2010''. is_dec_digit c" by (simp add: is_dec_digit_def)
  have h7: "case ''abc'' of [] \<Rightarrow> True | c # _ \<Rightarrow> \<not> is_dec_digit c" by (simp add: is_dec_digit_def)
  have h8: "\<not> starts_hex_literal ''2010'' ''abc''" by (simp add: starts_hex_literal_def)
  have v: "dec_value ''2010'' = 2010" by (simp add: dec_value_def)
  have h9: "dec_value ''2010'' \<le> 2 ^ 53" unfolding v by simp
  show ?thesis
    using year_is_integer_prefix[where cfg = cfg_example and row = row_prefix_year
        and ws = "[]" and sign = "[]" and ds = "''2010''" and rest = "''abc''"
        and pf = parseFloat_example, OF h1 h2 h3 h4 h5 h6 h7 h8 h9] h1 h2 h8 v
    by simp
qed

text \<open>
  C10 as stated fails: the Year text \<open>0x1F\<close> has the integer prefix \<open>0\<close> followed
  by other characters and normalizes to 31, and \<open>9007199254740993abc\<close> normalizes to
  9007199254740992.
\<close>

theorem year_prefix_counterexample:
  "row_hex_year ''Year'' = Some (''0'' @ ''x1F'')
   \<and> dec_value ''0'' = 0
   \<and> normalizeRow parseFloat_example cfg_example row_hex_year ''Year'' = Some (Num (Fin 31))
   \<and> row_long_year ''Year'' = Some (''9007199254740993'' @ ''abc'')
   \<and> dec_value ''9007199254740993'' = 9007199254740993
   \<and> normalizeRow parseFloat_example cfg_example row_long_year ''Year''
       = Some (Num (Fin 9007199254740992))"
proof -
  have a: "normalizeRow parseFloat_example cfg_example row_hex_year ''Year'' = Some (Num (Fin 31))"
    by (simp add: eval_defs example_defs)
  have b: "normalizeRow parseFloat_example cfg_example row_long_year ''Year''
       = Some (Num (Fin 9007199254740992))"
    by (simp add: eval_defs example_defs Let_def)
  have c: "dec_value ''9007199254740993'' = 9007199254740993"
    by (simp add: dec_value_def)
  show ?thesis
    using a b c by (simp add: row_hex_year_def row_long_year_def dec_value_zero)
qed

text \<open>The specification's first example: the row for Brazil normalizes to Entity
  \<open>Brazil\<close>, Year 2010 and coverage 42.5, and is retained.\<close>

lemma brazil_is_retained:
  "normalizeRow parseFloat_example cfg_example row_brazil = rec_brazil
   \<and> loadedData parseFloat_example cfg_example [row_brazil] = [rec_brazil]"
  by (simp add: eval_defs example_defs)

section \<open>Properties of the Dataset Loader\<close>

subsection \<open>What the filter keeps\<close>

lemma kept_record_valid:
  assumes "keepRow cfg (normalizeRow pf cfg row)"
  shows "normalizeRow pf cfg row ''Entity'' \<noteq> Some (Str sentinel) \<and>
         (\<exists>y. normalizeRow pf cfg row ''Year'' = Some (Num (Fin y))
              \<and> of_int (minYear cfg) \<le> y \<and> y \<le> of_int (maxYear cfg))"
proof -
  obtain x where x: "normalizeRow pf cfg row ''Year'' = Some (Num x)"
    using normalizeRow_Year_num by blast
  then have yo: "year_of (normalizeRow pf cfg row) = x"
    by (simp add: year_of_def)
  from assms have e: "normalizeRow pf cfg row ''Entity'' \<noteq> Some (Str sentinel)"
    and ge: "num_ge x (minYear cfg)" and le: "num_le x (maxYear cfg)"
    unfolding keepRow_def yo by blast+
  from ge le obtain y where "x = Fin y" "of_int (minYear cfg) \<le> y" "y \<le> of_int (maxYear cfg)"
    by (cases x) auto
  with x e show ?thesis by blast
qed

lemma loadedData_valid:
  assumes "r \<in> set (loadedData pf cfg rows)"
  shows "r ''Entity'' \<noteq> Some (Str sentinel) \<and>
         (\<exists>y. r ''Year'' = Some (Num (Fin y)) \<and> of_int (minYear cfg) \<le> y \<and> y \<le> of_int (maxYear cfg))"
proof -
  from assms obtain row where "r = normalizeRow pf cfg row" "keepRow cfg r"
    by (auto simp: loadedData_def)
  then show ?thesis using kept_record_valid by blast
qed

subsection \<open>Runs of \<open>loadDataset\<close>\<close>

lemma chart_citation_not_null: "metadata \<noteq> JNull \<Longrightarrow> \<exists>c. chart_citation metadata = Inr c"
  by (cases metadata) (simp_all add: chart_citation_def)

lemma try_block_succeeds:
  assumes "succeeds env"
  shows "\<exists>metadata c text rows.
           metaJson env = Resolved metadata \<and> chart_citation metadata = Inr c
           \<and> csvText env = Resolved text \<and> (\<exists>errs. papaParse env text =
                 Resolved \<lparr>results_data = rows, results_errors = errs\<rparr>)
           \<and> try_block pf env key ds =
               (ds\<lparr>citation := citation_or_default key c,
                   data := loadedData pf (conf ds) rows,
                   applyDisabled := map_option (\<lambda>_. False) (applyDisabled ds),
                   loaderHidden := True\<rparr>, None)"
proof -
  from assms obtain u metadata u2 csv res v where
    s: "metaFetch env = Resolved u" "metaJson env = Resolved metadata" "metadata \<noteq> JNull"
       "csvFetch env = Resolved u2" "csvText env = Resolved csv"
       "papaParse env csv = Resolved res" "initFilters env = Resolved v"
    unfolding succeeds_def by (auto split: outcome.splits)
  obtain rows errs where res: "res = \<lparr>results_data = rows, results_errors = errs\<rparr>"
    by (cases res) auto
  from chart_citation_not_null[OF s(3)] obtain c where c: "chart_citation metadata = Inr c" ..
  have "try_block pf env key ds =
               (ds\<lparr>citation := citation_or_default key c,
                   data := loadedData pf (conf ds) rows,
                   applyDisabled := map_option (\<lambda>_. False) (applyDisabled ds),
                   loaderHidden := True\<rparr>, None)"
    unfolding try_block_def by (simp add: s c res)
  with s c res show ?thesis by blast
qed

text \<open>
  C3. After any successful \<open>loadDataset\<close> completion, every Record stored in the
  dataset's \<open>data\<close> has an Entity that is not the sentinel and a Year within
  \<open>[minYear, maxYear]\<close> of its descriptor: no Record violating either condition is
  retained past the Loader. The run returns with the state of the key replaced, and
  every Record of the new \<open>data\<close> holds a finite number in bounds under \<open>Year\<close>.
\<close>

theorem loaded_data_invariant:
  assumes "w key = Some ds" and "succeeds env"
  shows "\<exists>ds'. loadDataset pf env key w = Inr (w(key \<mapsto> ds'))
           \<and> conf ds' = conf ds
           \<and> (\<forall>r\<in>set (data ds').
                 r ''Entity'' \<noteq> Some (Str sentinel)
                 \<and> (\<exists>y. r ''Year'' = Some (Num (Fin y))
                       \<and> of_int (minYear (conf ds)) \<le> y \<and> y \<le> of_int (maxYear (conf ds))))"
proof -
  define ds0 where "ds0 = ds\<lparr>loaderHTML := ''Carregando '' @ replace_dashes key @ ''...''\<rparr>"
  from try_block_succeeds[OF assms(2), of pf key ds0] obtain c rows where
    t: "try_block pf env key ds0 =
               (ds0\<lparr>citation := citation_or_default key c,
                   data := loadedData pf (conf ds0) rows,
                   applyDisabled := map_option (\<lambda>_. False) (applyDisabled ds0),
                   loaderHidden := True\<rparr>, None)"
    by blast
  define ds' where "ds' = ds0\<lparr>citation := citation_or_default key c,
                   data := loadedData pf (conf ds0) rows,
                   applyDisabled := map_option (\<lambda>_. False) (applyDisabled ds0),
                   loaderHidden := True\<rparr>"
  have l: "loadDataset pf env key w = Inr (w(key \<mapsto> ds'))"
    unfolding loadDataset_def assms(1) option.case Let_def ds0_def[symmetric] t ds'_def[symmetric]
    by simp
  have c: "conf ds' = conf ds" and d: "data ds' = loadedData pf (conf ds) rows"
    by (simp_all add: ds'_def ds0_def)
  have v: "\<forall>r\<in>set (data ds').
             r ''Entity'' \<noteq> Some (Str sentinel)
             \<and> (\<exists>y. r ''Year'' = Some (Num (Fin y))
                   \<and> of_int (minYear (conf ds)) \<le> y \<and> y \<le> of_int (maxYear (conf ds)))"
    unfolding d using loadedData_valid by blast
  show ?thesis
    using l c v by blast
qed

lemma loadedData_example: "loadedData parseFloat_example cfg_example [row_brazil] = [rec_brazil]"
  by (simp add: eval_defs example_defs)

theorem loaded_data_invariant_witness:
  "world_example ''marine-areas'' = Some ds_example
   \<and> succeeds env_ok
   \<and> map_option data (state_after (loadDataset parseFloat_example env_ok ''marine-areas'' world_example) ''marine-areas'')
       = Some [rec_brazil]
   \<and> rec_brazil ''Entity'' = Some (Str ''Brazil'')
   \<and> rec_brazil ''Year'' = Some (Num (Fin 2010))"
proof -
  have h1: "world_example ''marine-areas'' = Some ds_example"
    by (simp add: world_example_def)
  have h2: "succeeds env_ok"
    by (simp add: succeeds_def env_ok_def papa_example_def)
  from loaded_data_invariant[where w = world_example and key = "''marine-areas''"
      and ds = ds_example and env = env_ok and pf = parseFloat_example, OF h1 h2] obtain ds' where
    l: "loadDataset parseFloat_example env_ok ''marine-areas'' world_example
          = Inr (world_example(''marine-areas'' \<mapsto> ds'))" by blast
  have e: "loadDataset parseFloat_example env_ok ''marine-areas'' world_example
          = Inr (world_example(''marine-areas'' \<mapsto>
              \<lparr>conf = cfg_example, data = [rec_brazil], filteredData = [],
               loaderHTML = ''Carregando marine areas...'', loaderHidden = True,
               citation = JStr ''Fonte: marine-areas'', applyDisabled = Some False\<rparr>))"
    by (simp add: loadDataset_def world_example_def ds_example_def try_block_def env_ok_def
        chart_citation_def citation_or_default_def papa_example_def loadedData_example
        replace_dashes_def)
  from l e have "data ds' = [rec_brazil]"
    by (auto simp: fun_upd_eqD dest!: fun_upd_eqD)
  with l have "map_option data (state_after (loadDataset parseFloat_example env_ok ''marine-areas'' world_example) ''marine-areas'')
       = Some [rec_brazil]"
    by (simp add: state_after_def)
  with h1 h2 show ?thesis
    by (simp add: rec_brazil_def)
qed


subsection \<open>Failing steps\<close>

lemma loadDataset_Some:
  assumes "w key = Some ds"
  shows "loadDataset pf env key w =
         (case try_block pf env key (ds\<lparr>loaderHTML := ''Carregando '' @ replace_dashes key @ ''...''\<rparr>) of
            (ds', None) \<Rightarrow> Inr (w(key \<mapsto> ds'))
          | (ds', Some m) \<Rightarrow> Inr (w(key \<mapsto> ds'\<lparr>loaderHTML := ''Erro: '' @ m\<rparr>)))"
  unfolding loadDataset_def assms option.case Let_def ..

lemma try_block_metadata_fails:
  assumes "metadata_fails env m"
  shows "try_block pf env key ds0 = (ds0, Some m)"
  using assms unfolding metadata_fails_def try_block_def
  by (auto split: outcome.splits)

lemma try_block_no_citation:
  assumes "metaFetch env = Resolved u" and "metaJson env = Resolved metadata"
    and "no_citation metadata"
  shows "citation (fst (try_block pf env key ds0)) = JStr (''Fonte: '' @ key)"
proof -
  from assms(3) obtain c where c: "chart_citation metadata = Inr c"
    and d: "citation_or_default key c = JStr (''Fonte: '' @ key)"
    unfolding no_citation_def citation_or_default_def
    by (auto split: sum.splits option.splits)
  show ?thesis
    unfolding try_block_def
    by (simp add: assms(1,2) c d Let_def split: outcome.splits)
qed

text \<open>
  C2, as amended. When the metadata fetch or its JSON parse fails, \<open>loadDataset\<close> does
  not go on to the CSV: the \<open>catch\<close> writes \<open>Erro:\<close> and the message into the loader,
  and \<open>data\<close>, the citation and everything else of the dataset stay as they were. The
  default citation naming the dataset key is what the citation is set to when the
  metadata was fetched and parsed and carries no truthy \<open>chart.citation\<close>.
\<close>

theorem metadata_failure_aborts_load:
  assumes "w key = Some ds"
  shows "(metadata_fails env m
            \<longrightarrow> loadDataset pf env key w = Inr (w(key \<mapsto> ds\<lparr>loaderHTML := ''Erro: '' @ m\<rparr>)))
         \<and> ((\<exists>u metadata. metaFetch env = Resolved u \<and> metaJson env = Resolved metadata
                \<and> no_citation metadata)
            \<longrightarrow> map_option citation (state_after (loadDataset pf env key w) key)
                  = Some (JStr (''Fonte: '' @ key)))"
proof (intro conjI impI)
  note run = loadDataset_Some[where w = w and key = key and ds = ds, OF assms]
  assume "metadata_fails env m"
  then show "loadDataset pf env key w = Inr (w(key \<mapsto> ds\<lparr>loaderHTML := ''Erro: '' @ m\<rparr>))"
    unfolding run by (simp add: try_block_metadata_fails)
next
  assume "\<exists>u metadata. metaFetch env = Resolved u \<and> metaJson env = Resolved metadata
                \<and> no_citation metadata"
  then obtain u metadata where a: "metaFetch env = Resolved u" "metaJson env = Resolved metadata"
      "no_citation metadata" by blast
  note run = loadDataset_Some[where w = w and key = key and ds = ds, OF assms]
  define ds0 where "ds0 = ds\<lparr>loaderHTML := ''Carregando '' @ replace_dashes key @ ''...''\<rparr>"
  obtain ds1 e where t: "try_block pf env key ds0 = (ds1, e)" by (cases "try_block pf env key ds0")
  have "citation ds1 = JStr (''Fonte: '' @ key)"
    using try_block_no_citation[OF a, of pf key ds0] t by simp
  then show "map_option citation (state_after (loadDataset pf env key w) key)
                  = Some (JStr (''Fonte: '' @ key))"
    unfolding run ds0_def[symmetric] t
    by (cases e) (simp_all add: state_after_def)
qed


lemma load_meta_down:
  "loadDataset parseFloat_example env_meta_down ''marine-areas'' world_example
   = Inr (world_example(''marine-areas'' \<mapsto> ds_example\<lparr>loaderHTML := ''Erro: Failed to fetch''\<rparr>))"
  by (simp add: loadDataset_def world_example_def try_block_def env_meta_down_def)

theorem metadata_failure_aborts_load_witness:
  "world_example ''marine-areas'' = Some ds_example
   \<and> metadata_fails env_meta_down ''Failed to fetch''
   \<and> loadDataset parseFloat_example env_meta_down ''marine-areas'' world_example
       = Inr (world_example(''marine-areas'' \<mapsto> ds_example\<lparr>loaderHTML := ''Erro: Failed to fetch''\<rparr>))
   \<and> metaFetch env_ok = Resolved ()
   \<and> no_citation (JObj [(''chart'', JObj [(''subtitle'', JStr ''Share of waters protected'')])])
   \<and> map_option citation
        (state_after (loadDataset parseFloat_example env_ok ''marine-areas'' world_example) ''marine-areas'')
       = Some (JStr ''Fonte: marine-areas'')"
proof -
  have h: "world_example ''marine-areas'' = Some ds_example"
    by (simp add: world_example_def)
  have f: "metadata_fails env_meta_down ''Failed to fetch''"
    by (simp add: metadata_fails_def env_meta_down_def)
  have a: "metaFetch env_ok = Resolved ()"
    and b: "metaJson env_ok = Resolved (JObj [(''chart'', JObj [(''subtitle'', JStr ''Share of waters protected'')])])"
    by (simp_all add: env_ok_def)
  have n: "no_citation (JObj [(''chart'', JObj [(''subtitle'', JStr ''Share of waters protected'')])])"
    by (simp add: no_citation_def chart_citation_def)
  note down = metadata_failure_aborts_load[where w = world_example and key = "''marine-areas''"
      and ds = ds_example and env = env_meta_down and m = "''Failed to fetch''"
      and pf = parseFloat_example, OF h]
  note up = metadata_failure_aborts_load[where w = world_example and key = "''marine-areas''"
      and ds = ds_example and env = env_ok and pf = parseFloat_example, OF h]
  from down f have 1: "loadDataset parseFloat_example env_meta_down ''marine-areas'' world_example
       = Inr (world_example(''marine-areas'' \<mapsto> ds_example\<lparr>loaderHTML := ''Erro: Failed to fetch''\<rparr>))"
    by simp
  from up a b n have 2: "map_option citation
        (state_after (loadDataset parseFloat_example env_ok ''marine-areas'' world_example) ''marine-areas'')
       = Some (JStr (''Fonte: '' @ ''marine-areas''))"
    by blast
  from h f 1 a n 2 show ?thesis by simp
qed

text \<open>
  C2 as stated fails: with the metadata fetch rejected and a CSV that would parse into
  one valid Record, the run leaves \<open>data\<close> empty and the citation at its placeholder,
  and shows the error in the loader.
\<close>

theorem metadata_failure_counterexample:
  "metadata_fails env_meta_down ''Failed to fetch''
   \<and> csvFetch env_meta_down = Resolved ()
   \<and> csvText env_meta_down = Resolved csv_example
   \<and> papaParse env_meta_down csv_example
       = Resolved \<lparr>results_data = [row_brazil], results_errors = []\<rparr>
   \<and> loadedData parseFloat_example cfg_example [row_brazil] = [rec_brazil]
   \<and> map_option data
        (state_after (loadDataset parseFloat_example env_meta_down ''marine-areas'' world_example)
           ''marine-areas'') = Some []
   \<and> map_option citation
        (state_after (loadDataset parseFloat_example env_meta_down ''marine-areas'' world_example)
           ''marine-areas'') = Some (JStr ''...'')
   \<and> map_option loaderHTML
        (state_after (loadDataset parseFloat_example env_meta_down ''marine-areas'' world_example)
           ''marine-areas'') = Some ''Erro: Failed to fetch''"
  unfolding load_meta_down
  by (simp add: state_after_def metadata_fails_def env_meta_down_def papa_example_def
      loadedData_example ds_example_def)

lemma try_block_csv_rejected:
  assumes "csv_rejected env"
  shows "\<exists>ds1 m. try_block pf env key ds0 = (ds1, Some m) \<and> data ds1 = data ds0
           \<and> conf ds1 = conf ds0 \<and> filteredData ds1 = filteredData ds0
           \<and> loaderHidden ds1 = loaderHidden ds0 \<and> applyDisabled ds1 = applyDisabled ds0"
  using assms unfolding csv_rejected_def try_block_def
  by (auto simp: Let_def split: outcome.splits sum.splits)

text \<open>
  When the CSV fetch or the reading of its text is rejected, or the parser calls
  \<open>error\<close>, the \<open>catch\<close> writes the error into the loader of that dataset and leaves
  its \<open>data\<close>, the visibility of its loader and its apply button as they were; no
  other dataset is touched.
\<close>

lemma rejected_csv_step_is_fatal:
  assumes "w key = Some ds" and "csv_rejected env"
  shows "\<exists>ds' m. loadDataset pf env key w = Inr (w(key \<mapsto> ds'))
           \<and> loaderHTML ds' = ''Erro: '' @ m
           \<and> data ds' = data ds
           \<and> loaderHidden ds' = loaderHidden ds
           \<and> applyDisabled ds' = applyDisabled ds
           \<and> (\<forall>k. k \<noteq> key \<longrightarrow> (w(key \<mapsto> ds')) k = w k)"
proof -
  note run = loadDataset_Some[where w = w and key = key and ds = ds, OF assms(1)]
  define ds0 where "ds0 = ds\<lparr>loaderHTML := ''Carregando '' @ replace_dashes key @ ''...''\<rparr>"
  from try_block_csv_rejected[OF assms(2), of pf key ds0] obtain ds1 m where
    t: "try_block pf env key ds0 = (ds1, Some m)" and d: "data ds1 = data ds0"
    and h: "loaderHidden ds1 = loaderHidden ds0" and a: "applyDisabled ds1 = applyDisabled ds0"
    by blast
  define ds' where "ds' = ds1\<lparr>loaderHTML := ''Erro: '' @ m\<rparr>"
  have l: "loadDataset pf env key w = Inr (w(key \<mapsto> ds'))"
    unfolding run ds0_def[symmetric] t ds'_def by simp
  have "loaderHTML ds' = ''Erro: '' @ m" "data ds' = data ds" "loaderHidden ds' = loaderHidden ds"
    "applyDisabled ds' = applyDisabled ds"
    using d h a by (simp_all add: ds'_def ds0_def)
  with l show ?thesis by auto
qed

text \<open>A rejected CSV fetch on the example page: the citation has been set, the loader
  holds the error, \<open>data\<close> is still empty.\<close>

lemma load_csv_down:
  "loadDataset parseFloat_example env_csv_down ''marine-areas'' world_example
   = Inr (world_example(''marine-areas'' \<mapsto>
        ds_example\<lparr>citation := JStr ''Fonte: marine-areas'', loaderHTML := ''Erro: Failed to fetch''\<rparr>))"
  by (simp add: loadDataset_def world_example_def try_block_def env_csv_down_def
      chart_citation_def citation_or_default_def ds_example_def)

lemma loadedData_malformed:
  "loadedData parseFloat_example cfg_example [row_brazil, row_chile_short] = [rec_brazil, rec_chile]"
  by (simp add: eval_defs example_defs row_chile_short_def rec_chile_def)

text \<open>
  C8. For every dataset load where the CSV fetch or the CSV parse fails, the failure is
  fatal for that dataset only: the loader shows an error message, the dataset's
  \<open>data\<close> is left unchanged, and the state of every other dataset is unaffected.

  The source hands the parser's \<open>error\<close> callback to \<open>reject\<close>, but a malformed text
  reaches \<open>complete\<close>, whose \<open>results.errors\<close> the callback never reads. On a CSV
  whose second record lacks a field the run ends as a success: \<open>data\<close> is replaced by
  both rows (the short one with coverage 0), the loader keeps its loading text and is
  hidden, and the apply button is enabled.
\<close>

theorem malformed_csv_completes_as_success:
  "csvText env_malformed = Resolved csv_malformed
   \<and> papaParse env_malformed csv_malformed
       = Resolved \<lparr>results_data = [row_brazil, row_chile_short],
                   results_errors = [''Too few fields: expected 3 fields but parsed 2'']\<rparr>
   \<and> world_example ''marine-areas'' = Some ds_example
   \<and> data ds_example = []
   \<and> loadDataset parseFloat_example env_malformed ''marine-areas'' world_example
       = Inr (world_example(''marine-areas'' \<mapsto>
            \<lparr>conf = cfg_example, data = [rec_brazil, rec_chile], filteredData = [],
             loaderHTML = ''Carregando marine areas...'', loaderHidden = True,
             citation = JStr ''Fonte: marine-areas'', applyDisabled = Some False\<rparr>))"
proof -
  have p: "papaParse env_malformed csv_malformed
       = Resolved \<lparr>results_data = [row_brazil, row_chile_short],
                   results_errors = [''Too few fields: expected 3 fields but parsed 2'']\<rparr>"
    by (simp add: env_malformed_def papa_example_def csv_malformed_def csv_example_def)
  have p': "papa_example csv_malformed
       = Resolved \<lparr>results_data = [row_brazil, row_chile_short],
                   results_errors = [''Too few fields: expected 3 fields but parsed 2'']\<rparr>"
    by (simp add: papa_example_def csv_malformed_def csv_example_def)
  have t: "csvText env_malformed = Resolved csv_malformed"
    by (simp add: env_malformed_def)
  have l: "loadDataset parseFloat_example env_malformed ''marine-areas'' world_example
       = Inr (world_example(''marine-areas'' \<mapsto>
            \<lparr>conf = cfg_example, data = [rec_brazil, rec_chile], filteredData = [],
             loaderHTML = ''Carregando marine areas...'', loaderHidden = True,
             citation = JStr ''Fonte: marine-areas'', applyDisabled = Some False\<rparr>))"
    by (simp add: loadDataset_def try_block_def world_example_def ds_example_def
        env_malformed_def chart_citation_def citation_or_default_def p' loadedData_malformed
        replace_dashes_def)
  from p t l show ?thesis
    by (simp add: world_example_def ds_example_def)
qed

section \<open>Renamed columns\<close>

lemma or_zero_NaN: "or_zero x = (if x = NaN then Fin 0 else x)"
  by (cases x) (auto simp: or_zero_def)

text \<open>
  C5. For every raw record and every pair (original header, new name) of the column
  map, the Row Normalizer stores under the new name what \<open>parseFloat\<close> returns for
  the raw value under the original header, and 0 when that is NaN, which is what the
  builtin returns for an absent or unparsable value. \<open>normalizeRow\<close> has no error
  result: a malformed field raises nothing. The new names are taken to be distinct, a
  later pair with the same name replacing an earlier one.
\<close>

theorem renamed_columns_parse_or_zero:
  assumes "distinct (map snd (columnMap cfg))"
    and "(original, newName) \<in> set (columnMap cfg)"
  shows "normalizeRow pf cfg row newName
         = Some (Num (if pf (row original) = NaN then Fin 0 else pf (row original)))"
proof -
  define kvs where
    "kvs = map (\<lambda>(original, newName). (newName, Num (or_zero (pf (row original))))) (columnMap cfg)"
  have fst: "map fst kvs = map snd (columnMap cfg)"
    by (simp add: kvs_def case_prod_unfold comp_def)
  have mem: "(newName, Num (or_zero (pf (row original)))) \<in> set (rev kvs)"
    using assms(2) by (force simp: kvs_def)
  have "distinct (map fst (rev kvs))"
    using assms(1) by (simp add: rev_map[symmetric] fst)
  from map_of_is_SomeI[OF this mem]
  have "fromEntries kvs newName = Some (Num (or_zero (pf (row original))))"
    by (simp add: fromEntries_map_of)
  then show ?thesis
    unfolding normalizeRow_def kvs_def[symmetric] by (simp add: map_add_def or_zero_NaN)
qed

theorem renamed_columns_parse_or_zero_witness:
  "distinct (map snd (columnMap cfg_example))
   \<and> (''Coverage'', ''coverage'') \<in> set (columnMap cfg_example)
   \<and> parseFloat_example (row_brazil ''Coverage'') = Fin (85 / 2)
   \<and> normalizeRow parseFloat_example cfg_example row_brazil ''coverage'' = Some (Num (Fin (85 / 2)))
   \<and> parseFloat_example (row_no_coverage ''Coverage'') = NaN
   \<and> normalizeRow parseFloat_example cfg_example row_no_coverage ''coverage'' = Some (Num (Fin 0))"
proof -
  have h1: "distinct (map snd (columnMap cfg_example))"
    and h2: "(''Coverage'', ''coverage'') \<in> set (columnMap cfg_example)"
    by (simp_all add: cfg_example_def)
  have a: "parseFloat_example (row_brazil ''Coverage'') = Fin (85 / 2)"
    and b: "parseFloat_example (row_no_coverage ''Coverage'') = NaN"
    by (simp_all add: parseFloat_example_def row_brazil_def row_no_coverage_def)
  from renamed_columns_parse_or_zero[OF h1 h2, of parseFloat_example row_brazil] a
  have 1: "normalizeRow parseFloat_example cfg_example row_brazil ''coverage'' = Some (Num (Fin (85 / 2)))"
    by simp
  from renamed_columns_parse_or_zero[OF h1 h2, of parseFloat_example row_no_coverage] b
  have 2: "normalizeRow parseFloat_example cfg_example row_no_coverage ''coverage'' = Some (Num (Fin 0))"
    by simp
  from h1 h2 a b 1 2 show ?thesis by blast
qed


section \<open>Properties of the sliders\<close>

lemma sanitize_in_range: "lo \<le> v \<Longrightarrow> v \<le> hi \<Longrightarrow> sanitize lo hi v = v"
  by (simp add: sanitize_def)

lemma sanitize_clamp: "lo \<le> hi \<Longrightarrow> sanitize lo hi v = max lo (min hi v)"
  by (simp add: sanitize_def max_def min_def)

lemma initializeSliders_ok:
  assumes "2000 \<le> slider_min (maxYearSlider page)"
    and "slider_min (maxYearSlider page) \<le> slider_max (maxYearSlider page)"
    and "2024 \<le> slider_max (maxYearSlider page)"
  shows "sliders_ok (slider_min (maxYearSlider page)) (slider_max (maxYearSlider page))
           (initializeSliders page)"
  using assms
  by (simp add: sliders_ok_def initializeSliders_def set_value_def set_min_def set_max_def
      sanitize_def)

lemma on_input_MinInput:
  assumes "sliders_ok lo hi st" and "2000 \<le> lo" and "lo \<le> hi" and "2024 \<le> hi"
  shows "sliders_ok lo hi (on_input (MinInput v) st)
         \<and> slider_value (minYearSlider (on_input (MinInput v) st)) = max 2000 (min 2024 v)
         \<and> slider_value (maxYearSlider (on_input (MinInput v) st))
             = max (slider_value (maxYearSlider st)) (max 2000 (min 2024 v))"
  using assms
  by (auto simp: sliders_ok_def minYearSlider_input_def set_value_def sanitize_def Let_def
      max_def min_def)

lemma on_input_MaxInput:
  assumes "sliders_ok lo hi st" and "2000 \<le> lo" and "lo \<le> hi" and "2024 \<le> hi"
  shows "sliders_ok lo hi (on_input (MaxInput v) st)
         \<and> slider_value (maxYearSlider (on_input (MaxInput v) st)) = max lo (min hi v)
         \<and> slider_value (minYearSlider (on_input (MaxInput v) st))
             = min (slider_value (minYearSlider st)) (max lo (min hi v))"
  using assms
  by (auto simp: sliders_ok_def maxYearSlider_input_def set_value_def sanitize_def Let_def
      max_def min_def)

lemma after_events_snoc: "after_events page (evs @ [e]) = on_input e (after_events page evs)"
  by (simp add: after_events_def)

lemma after_events_ok:
  assumes "2000 \<le> slider_min (maxYearSlider page)"
    and "slider_min (maxYearSlider page) \<le> slider_max (maxYearSlider page)"
    and "2024 \<le> slider_max (maxYearSlider page)"
  shows "sliders_ok (slider_min (maxYearSlider page)) (slider_max (maxYearSlider page))
           (after_events page evs)"
proof (induction evs rule: rev_induct)
  case Nil
  show ?case using initializeSliders_ok[OF assms] by (simp add: after_events_def)
next
  case (snoc e evs)
  show ?case
    unfolding after_events_snoc
    using on_input_MinInput[OF snoc assms] on_input_MaxInput[OF snoc assms]
    by (cases e) simp_all
qed

text \<open>
  C9, as amended. When the page declares the max-year slider with a range from \<open>lo\<close>
  to \<open>hi\<close> with \<open>2000 \<le> lo \<le> hi\<close> and \<open>2024 \<le> hi\<close>, then after
  \<open>initializeSliders\<close> and any sequence of slider input events the value of the
  min-year slider is at most the value of the max-year slider. An event leaves the moved
  slider at the chosen year brought into that slider's range, and its listener moves the
  opposite slider to that year exactly when the year crosses it.
\<close>

theorem sliders_stay_ordered_in_range:
  assumes "2000 \<le> slider_min (maxYearSlider page)"
    and "slider_min (maxYearSlider page) \<le> slider_max (maxYearSlider page)"
    and "2024 \<le> slider_max (maxYearSlider page)"
  shows "slider_value (minYearSlider (after_events page evs))
           \<le> slider_value (maxYearSlider (after_events page evs))
         \<and> slider_value (minYearSlider (after_events page (evs @ [MinInput v])))
             = max 2000 (min 2024 v)
         \<and> slider_value (maxYearSlider (after_events page (evs @ [MinInput v])))
             = max (slider_value (maxYearSlider (after_events page evs))) (max 2000 (min 2024 v))
         \<and> slider_value (maxYearSlider (after_events page (evs @ [MaxInput v])))
             = max (slider_min (maxYearSlider page)) (min (slider_max (maxYearSlider page)) v)
         \<and> slider_value (minYearSlider (after_events page (evs @ [MaxInput v])))
             = min (slider_value (minYearSlider (after_events page evs)))
                   (max (slider_min (maxYearSlider page)) (min (slider_max (maxYearSlider page)) v))"
proof -
  note ok = after_events_ok[OF assms, of evs]
  from ok have "slider_value (minYearSlider (after_events page evs))
           \<le> slider_value (maxYearSlider (after_events page evs))"
    by (simp add: sliders_ok_def)
  with on_input_MinInput[OF ok assms, of v] on_input_MaxInput[OF ok assms, of v]
  show ?thesis
    unfolding after_events_snoc by blast
qed

theorem sliders_stay_ordered_in_range_witness:
  "(2000::int) \<le> slider_min (maxYearSlider page_2000_2024)
   \<and> slider_min (maxYearSlider page_2000_2024) \<le> slider_max (maxYearSlider page_2000_2024)
   \<and> (2024::int) \<le> slider_max (maxYearSlider page_2000_2024)
   \<and> slider_value (minYearSlider (after_events page_2000_2024 [MaxInput 2010])) = 2000
   \<and> slider_value (maxYearSlider (after_events page_2000_2024 [MaxInput 2010])) = 2010
   \<and> slider_value (minYearSlider (after_events page_2000_2024 ([MaxInput 2010] @ [MinInput 2015]))) = 2015
   \<and> slider_value (maxYearSlider (after_events page_2000_2024 ([MaxInput 2010] @ [MinInput 2015]))) = 2015
   \<and> slider_value (maxYearSlider (after_events page_2000_2024 ([MaxInput 2010] @ [MaxInput 1990]))) = 2000
   \<and> slider_value (minYearSlider (after_events page_2000_2024 ([MaxInput 2010] @ [MaxInput 1990]))) = 2000"
proof -
  have h1: "(2000::int) \<le> slider_min (maxYearSlider page_2000_2024)"
    and h2: "slider_min (maxYearSlider page_2000_2024) \<le> slider_max (maxYearSlider page_2000_2024)"
    and h3: "(2024::int) \<le> slider_max (maxYearSlider page_2000_2024)"
    by (simp_all add: page_2000_2024_def)
  have a: "slider_value (minYearSlider (after_events page_2000_2024 [MaxInput 2010])) = 2000"
    and b: "slider_value (maxYearSlider (after_events page_2000_2024 [MaxInput 2010])) = 2010"
    by (simp_all add: after_events_def initializeSliders_def page_2000_2024_def set_value_def
        set_min_def set_max_def sanitize_def maxYearSlider_input_def Let_def)
  note t = sliders_stay_ordered_in_range[OF h1 h2 h3, of "[MaxInput 2010]"]
  from t[of 2015] a b
  have c: "slider_value (minYearSlider (after_events page_2000_2024 ([MaxInput 2010] @ [MinInput 2015]))) = 2015"
    and d: "slider_value (maxYearSlider (after_events page_2000_2024 ([MaxInput 2010] @ [MinInput 2015]))) = 2015"
    by simp_all
  from t[of 1990] a b
  have e: "slider_value (maxYearSlider (after_events page_2000_2024 ([MaxInput 2010] @ [MaxInput 1990]))) = 2000"
    and f: "slider_value (minYearSlider (after_events page_2000_2024 ([MaxInput 2010] @ [MaxInput 1990]))) = 2000"
    by (simp_all add: page_2000_2024_def)
  from h1 h2 h3 a b c d e f show ?thesis by blast
qed

text \<open>
  C9 as stated fails. On two inputs declared without attributes the max-year slider
  keeps its range of 0 to 100, so \<open>initializeSliders\<close> leaves it at 100 under a
  min-year slider at 2000. On a max-year slider declared from 1990 the user can choose
  1990; the listener assigns 1990 to the min-year slider, which stays at its minimum
  2000, above the max-year slider.
\<close>

theorem sliders_order_counterexample:
  "slider_value (minYearSlider (after_events page_plain [])) = 2000
   \<and> slider_value (maxYearSlider (after_events page_plain [])) = 100
   \<and> slider_value (minYearSlider (after_events page_from_1990 [MaxInput 1990])) = 2000
   \<and> slider_value (maxYearSlider (after_events page_from_1990 [MaxInput 1990])) = 1990"
  by (simp add: after_events_def initializeSliders_def page_plain_def page_from_1990_def
      set_value_def set_min_def set_max_def sanitize_def maxYearSlider_input_def Let_def)

section \<open>Properties of the Range Filter\<close>

lemma rangeFilter_filtered:
  "filtered (rangeFilter ind dat lo hi)
   = filter (in_range (if lo \<le> hi then lo else hi) (if lo \<le> hi then hi else lo)) dat"
  by (simp add: rangeFilter_def Let_def)

text \<open>The specification's filtering example: averages 15 for A and 30 for B, progress
  20 for 2001 and 20 for 2002.\<close>

lemma tables_of_the_example:
  "avgTable (rangeFilter ''coverage'' data_example 2001 2002)
     = [(Some (Str ''A''), 15), (Some (Str ''B''), 30)]
   \<and> progressTable (rangeFilter ''coverage'' data_example 2001 2002) = [(2001, 20), (2002, 20)]"
  by (simp add: rangeFilter_def data_example_def in_range_def year_of_def year_value_def
      distinct_in_order_def mean_def indicator_value_def Let_def)

text \<open>
  C6. For every \<open>data\<close> and every pair of bounds given with the lower above the
  upper, the Range Filter behaves as if invoked with the bounds swapped: it returns the
  Records with Year between the two, and not an empty result when such a Record exists.
\<close>

theorem swapped_bounds_are_reordered:
  assumes "hi < lo"
  shows "rangeFilter ind dat lo hi = rangeFilter ind dat hi lo
         \<and> filtered (rangeFilter ind dat lo hi) = filter (in_range hi lo) dat
         \<and> ((\<exists>r\<in>set dat. in_range hi lo r) \<longrightarrow> filtered (rangeFilter ind dat lo hi) \<noteq> [])"
proof -
  have 1: "rangeFilter ind dat lo hi = rangeFilter ind dat hi lo"
    using assms by (simp add: rangeFilter_def)
  have 2: "filtered (rangeFilter ind dat lo hi) = filter (in_range hi lo) dat"
    using assms by (simp add: rangeFilter_filtered)
  have 3: "(\<exists>r\<in>set dat. in_range hi lo r) \<longrightarrow> filtered (rangeFilter ind dat lo hi) \<noteq> []"
    unfolding 2 by (auto simp: filter_empty_conv)
  from 1 2 3 show ?thesis by blast
qed

lemma data_example_in_range: "filter (in_range 2001 2002) data_example = data_example"
  by (simp add: data_example_def in_range_def year_of_def)

theorem swapped_bounds_are_reordered_witness:
  "(2001::int) < 2002
   \<and> rangeFilter ''coverage'' data_example 2002 2001 = rangeFilter ''coverage'' data_example 2001 2002
   \<and> filtered (rangeFilter ''coverage'' data_example 2002 2001) = data_example
   \<and> data_example \<noteq> []"
proof -
  have h: "(2001::int) < 2002" by simp
  note t = swapped_bounds_are_reordered[OF h, of "''coverage''" data_example]
  from t have 1: "rangeFilter ''coverage'' data_example 2002 2001 = rangeFilter ''coverage'' data_example 2001 2002"
    by blast
  from t have 2: "filtered (rangeFilter ''coverage'' data_example 2002 2001) = data_example"
    unfolding data_example_in_range by blast
  have 3: "data_example \<noteq> []" by (simp add: data_example_def)
  from h 1 2 3 show ?thesis by blast
qed

lemma rangeFilter_again:
  "rangeFilter ind (filtered (rangeFilter ind dat lo hi)) lo hi = rangeFilter ind dat lo hi"
  by (simp add: rangeFilter_def Let_def)

text \<open>
  C7. The Range Filter is pure and idempotent: a filter-apply action leaves \<open>data\<close> as
  it was, a second action with the same arguments on the resulting state yields the
  same state and the same two tables, and filtering the filtered Records again changes
  nothing.
\<close>

theorem range_filter_is_pure_and_idempotent:
  "data (fst (applyFilters ind lo hi ds)) = data ds
   \<and> applyFilters ind lo hi (fst (applyFilters ind lo hi ds)) = applyFilters ind lo hi ds
   \<and> rangeFilter ind (filtered (rangeFilter ind (data ds) lo hi)) lo hi
       = rangeFilter ind (data ds) lo hi"
  by (simp add: applyFilters_def Let_def rangeFilter_again)

end
